theory Spec2Isabelle
  imports Main "HOL-Library.Sublist"
begin

section \<open>Data model\<close>

text \<open>
  The channel handlers of \<^verbatim>\<open>temba/channels/handlers.py\<close> are Django views. Each one is
  modelled as a function from the store and the request to the outcome of the view and the
  store it leaves behind. The models of \<^verbatim>\<open>temba.msgs\<close>, \<^verbatim>\<open>temba.channels\<close> and
  \<^verbatim>\<open>temba.orgs\<close> are records holding the fields the handlers read.
\<close>

datatype msg_status = PENDING | QUEUED | WIRED | SENT | DELIVERED | FAILED | INTERRUPTED

datatype direction = INCOMING | OUTGOING

datatype channel_type =
    TYPE_TWIML | TYPE_TWILIO | TYPE_TWILIO_MESSAGING_SERVICE | TYPE_AFRICAS_TALKING
  | TYPE_ZENVIA | TYPE_EXTERNAL | TYPE_SHAQODOON | TYPE_YO | TYPE_TELEGRAM | TYPE_INFOBIP
  | TYPE_HUB9 | TYPE_HIGH_CONNECTION | TYPE_BLACKMYNA | TYPE_SMSCENTRAL | TYPE_M3TECH
  | TYPE_NEXMO | TYPE_VERBOICE | TYPE_VUMI | TYPE_VUMI_USSD | TYPE_KANNEL | TYPE_CLICKATELL
  | TYPE_PLIVO | TYPE_START | TYPE_CHIKKA | TYPE_JASMIN | TYPE_MBLOX | TYPE_FACEBOOK
  | TYPE_GLOBE | TYPE_VIBER | TYPE_LINE | TYPE_ANDROID

text \<open>Exceptions a view can leave unhandled.\<close>

datatype py_error = ValidationError | KeyError | ValueError | AttributeError | TypeError
  | IndexError | DoesNotExist | UnicodeError

text \<open>A point in time, in seconds since the epoch.\<close>

type_synonym datetime = int

record org =
  org_id :: nat
  connected_to_twilio :: bool
  twilio_auth :: "string option"
  is_anon :: bool
  org_config :: "string \<rightharpoonup> string"

record channel =
  ch_id :: nat
  ch_uuid :: string
  ch_type :: channel_type
  ch_address :: string
  ch_role :: string
  ch_is_active :: bool
  ch_org :: "org option"
  ch_config :: "string \<rightharpoonup> string"
  ch_ivr_auth :: "string option"

record msg =
  msg_id :: nat
  msg_org :: "org option"
  msg_channel :: "channel option"
  msg_urn :: string
  msg_text :: string
  msg_status :: msg_status
  msg_direction :: direction
  msg_external_id :: "string option"
  msg_created_on :: datetime
  msg_media :: "string option"
  msg_broadcast :: "nat option"

text \<open>
  What a handler asks of its collaborators besides the message table: each call is
  recorded, in order.
\<close>

datatype effect =
    HandleMsgQueued nat
  | TrackStatus nat string
  | BroadcastUpdate nat
  | ContactStopped string
  | ContactGetOrCreate nat string
  | IVRCallCreated nat string nat
  | FlowRunCreated nat string
  | TriggerCaught string string nat
  | PushTask nat bool
  | WebHookSmsEvent nat
  | FollowTriggers int int bool

record store =
  channels :: "channel list"
  msgs :: "msg list"
  msg_seq :: nat
  effects :: "effect list"

datatype json = JNull | JBool bool | JNum int | JStr string | JArr "json list"
  | JObj "(string \<times> json) list"

text \<open>
  The request: the query string, the form body, the headers, the path, the decoded JSON
  body (\<open>None\<close> when \<^verbatim>\<open>json.loads(request.body)\<close> raises, with the text of the
  exception beside it) and the two named groups of the handler's URL pattern.
\<close>

record request =
  GET :: "string \<rightharpoonup> string"
  POST :: "string \<rightharpoonup> string"
  META :: "string \<rightharpoonup> string"
  full_path :: string
  json_body :: "json option"
  json_error :: string
  kw_action :: string
  kw_uuid :: string

datatype outcome = Raised py_error | HttpResponse string nat | JsonResponse json nat

text \<open>
  Library functions and settings the handlers call, as parameters: the Twilio request
  validator (auth token, URL, form, signature) and the TwiML it renders; Python's
  \<^verbatim>\<open>int\<close>, \<^verbatim>\<open>unicode\<close> of a JSON value and \<^verbatim>\<open>json.dumps\<close>;
  \<^verbatim>\<open>datetime.strptime\<close> (value, then format) and \<^verbatim>\<open>datetime.utcfromtimestamp\<close>
  (\<open>None\<close> where they raise ValueError); Django's \<^verbatim>\<open>parse_datetime\<close>, which
  raises ValueError or returns \<^verbatim>\<open>None\<close>; pytz's \<^verbatim>\<open>localize\<close> (zone, then naive
  time); the two charset conversions of the Clickatell handler; the clock; the settings;
  number normalisation, media download and the flow engine.
\<close>

record env =
  validate :: "string \<Rightarrow> string \<Rightarrow> (string \<rightharpoonup> string) \<Rightarrow> string \<Rightarrow> bool"
  twiml_say_hangup :: "string \<Rightarrow> string"
  py_int :: "string \<Rightarrow> int option"
  py_str :: "json \<Rightarrow> string"
  json_dumps :: "json \<Rightarrow> string"
  strptime :: "string \<Rightarrow> string \<Rightarrow> datetime option"
  utcfromtimestamp :: "int \<Rightarrow> datetime option"
  parse_datetime :: "string \<Rightarrow> py_error + datetime option"
  localize :: "string \<Rightarrow> datetime \<Rightarrow> datetime"
  decode_utf16be :: "string \<Rightarrow> string option"
  recode_latin1 :: "string \<Rightarrow> string"
  now :: datetime
  TEMBA_HOST :: string
  HOSTNAME :: string
  MAGE_AUTH_TOKEN :: string
  normalize_number :: "string \<Rightarrow> string \<Rightarrow> string"
  download_media :: "string \<Rightarrow> string"
  find_flow_for_inbound_call :: "string \<Rightarrow> nat option"
  handle_call :: "nat \<Rightarrow> string"

section \<open>Python helpers\<close>

text \<open>The apostrophe, for messages that quote a value.\<close>

abbreviation (input) apos :: char where
  "apos \<equiv> CHR 0x27"

text \<open>\<^verbatim>\<open>str.lower\<close> on ASCII letters.\<close>

definition lower_char :: "char \<Rightarrow> char" where
  "lower_char c =
     (case map_of (zip ''ABCDEFGHIJKLMNOPQRSTUVWXYZ'' ''abcdefghijklmnopqrstuvwxyz'') c of
        Some d \<Rightarrow> d | None \<Rightarrow> c)"

definition lower :: "string \<Rightarrow> string" where
  "lower s = map lower_char s"

text \<open>\<^verbatim>\<open>"%d" % n\<close> for a primary key.\<close>

function str_nat :: "nat \<Rightarrow> string" where
  "str_nat n = (if n < 10 then [''0123456789'' ! n]
                else str_nat (n div 10) @ [''0123456789'' ! (n mod 10)])"
  by pat_completeness auto
termination
  by (relation "measure id") auto

declare str_nat.simps [simp del]

text \<open>\<^verbatim>\<open>"%s" % x\<close> where \<open>x\<close> may be \<^verbatim>\<open>None\<close>.\<close>

definition str_opt :: "string option \<Rightarrow> string" where
  "str_opt x = (case x of None \<Rightarrow> ''None'' | Some v \<Rightarrow> v)"

text \<open>Truth value of a string or \<^verbatim>\<open>None\<close>: \<^verbatim>\<open>None\<close> and the empty string are false.\<close>

definition truthy :: "string option \<Rightarrow> bool" where
  "truthy x = (case x of None \<Rightarrow> False | Some v \<Rightarrow> v \<noteq> [])"

text \<open>
  \<^verbatim>\<open>QuerySet.first()\<close>. The tables of the store are lists in primary key order, the
  order \<^verbatim>\<open>first()\<close> imposes on an unordered queryset.
\<close>

definition first :: "'a list \<Rightarrow> 'a option" where
  "first xs = (case xs of [] \<Rightarrow> None | x # _ \<Rightarrow> Some x)"

text \<open>
  A decoded JSON body. \<^verbatim>\<open>body[k]\<close> raises KeyError on a dictionary without the key
  and TypeError on anything that is not a dictionary; \<^verbatim>\<open>k in body\<close> is key
  membership on a dictionary, element membership on a list, the substring test on a string
  and a TypeError otherwise. A dictionary lists each key once.
\<close>

definition subscript :: "json \<Rightarrow> string \<Rightarrow> py_error + json" where
  "subscript j k =
     (case j of
        JObj kv \<Rightarrow> (case map_of kv k of None \<Rightarrow> Inl KeyError | Some v \<Rightarrow> Inr v)
      | _ \<Rightarrow> Inl TypeError)"

definition contains :: "json \<Rightarrow> string \<Rightarrow> py_error + bool" where
  "contains j k =
     (case j of
        JObj kv \<Rightarrow> Inr (map_of kv k \<noteq> None)
      | JArr xs \<Rightarrow> Inr (JStr k \<in> set xs)
      | JStr t \<Rightarrow> Inr (sublist k t)
      | _ \<Rightarrow> Inl TypeError)"

text \<open>\<^verbatim>\<open>all(k in body for k in ks)\<close>, which stops at the first key that is missing.\<close>

fun contains_all :: "json \<Rightarrow> string list \<Rightarrow> py_error + bool" where
  "contains_all j [] = Inr True"
| "contains_all j (k # ks) =
     (case contains j k of
        Inl err \<Rightarrow> Inl err
      | Inr b \<Rightarrow> if b then contains_all j ks else Inr False)"

text \<open>The text of a JSON value, as string formatting and the ORM's text columns take it.\<close>

definition jtext :: "env \<Rightarrow> json \<Rightarrow> string" where
  "jtext e j = (case j of JStr t \<Rightarrow> t | _ \<Rightarrow> py_str e j)"

text \<open>A JSON value as the value of a nullable text column: \<^verbatim>\<open>null\<close> is NULL.\<close>

definition jcolumn :: "env \<Rightarrow> json \<Rightarrow> string option" where
  "jcolumn e j = (case j of JNull \<Rightarrow> None | _ \<Rightarrow> Some (jtext e j))"

section \<open>BaseChannelHandler\<close>

text \<open>
  \<^verbatim>\<open>get_param(name, default)\<close>: \<^verbatim>\<open>request.GET[name]\<close>; on KeyError
  \<^verbatim>\<open>request.POST[name]\<close>; on KeyError the default.
\<close>

definition get_param :: "request \<Rightarrow> string \<Rightarrow> string option \<Rightarrow> string option" where
  "get_param r name dflt =
     (case GET r name of
        Some v \<Rightarrow> Some v
      | None \<Rightarrow> (case POST r name of Some v \<Rightarrow> Some v | None \<Rightarrow> dflt))"

section \<open>Message operations\<close>

text \<open>
  Modelled from the spec: \<^verbatim>\<open>Msg.status_sent\<close>, \<^verbatim>\<open>Msg.status_delivered\<close> and
  \<^verbatim>\<open>Msg.fail\<close> of \<^verbatim>\<open>temba.msgs.models\<close>, which is not among the sources. They are
  the edges of the message lifecycle to SENT, DELIVERED and FAILED on one message object.
  The restriction of the edge to SENT to messages that are PENDING, QUEUED or WIRED is the
  \<^verbatim>\<open>status__in\<close> filter that a handler puts in front of the call.
\<close>

definition status_sent :: "msg \<Rightarrow> msg" where
  "status_sent m = m\<lparr>msg_status := SENT\<rparr>"

definition status_delivered :: "msg \<Rightarrow> msg" where
  "status_delivered m = m\<lparr>msg_status := DELIVERED\<rparr>"

definition fail :: "msg \<Rightarrow> msg" where
  "fail m = m\<lparr>msg_status := FAILED\<rparr>"

text \<open>
  Saving the objects of a queryset after a method has run on each: every message of the
  table that the queryset selects is replaced by its image.
\<close>

definition update_msgs :: "(msg \<Rightarrow> bool) \<Rightarrow> (msg \<Rightarrow> msg) \<Rightarrow> store \<Rightarrow> store" where
  "update_msgs sel f s = s\<lparr>msgs := map (\<lambda>m. if sel m then f m else m) (msgs s)\<rparr>"

definition add_effects :: "effect list \<Rightarrow> store \<Rightarrow> store" where
  "add_effects es s = s\<lparr>effects := effects s @ es\<rparr>"

text \<open>
  Modelled from the spec: \<^verbatim>\<open>Msg.create_incoming\<close> of \<^verbatim>\<open>temba.msgs.models\<close>, which
  is not among the sources. It inserts a new inbound message with a server-assigned id,
  whose timestamp is the date given or else the time of receipt, and hands the message to
  the downstream handling queue.
\<close>

definition create_incoming ::
  "env \<Rightarrow> store \<Rightarrow> channel \<Rightarrow> string \<Rightarrow> string \<Rightarrow> datetime option \<Rightarrow> string option
     \<Rightarrow> msg_status \<Rightarrow> msg \<times> store" where
  "create_incoming e s c urn txt date media st =
     (let m = \<lparr>msg_id = msg_seq s, msg_org = ch_org c, msg_channel = Some c, msg_urn = urn,
                msg_text = txt, msg_status = st, msg_direction = INCOMING,
                msg_external_id = None,
                msg_created_on = (case date of None \<Rightarrow> now e | Some d \<Rightarrow> d),
                msg_media = media, msg_broadcast = None\<rparr>
      in (m, s\<lparr>msgs := msgs s @ [m], msg_seq := Suc (msg_seq s),
                effects := effects s @ [HandleMsgQueued (msg_id m)]\<rparr>))"

text \<open>\<^verbatim>\<open>Msg.objects.filter(pk=id).update(external_id=x)\<close>.\<close>

definition set_external_id :: "nat \<Rightarrow> string option \<Rightarrow> store \<Rightarrow> store" where
  "set_external_id i x s = update_msgs (\<lambda>m. msg_id m = i) (\<lambda>m. m\<lparr>msg_external_id := x\<rparr>) s"

text \<open>
  Modelled from the spec: \<^verbatim>\<open>URN.from_tel\<close> of \<^verbatim>\<open>temba.contacts.models\<close>, which is
  not among the sources: the address under the scheme \<^verbatim>\<open>tel\<close>.
\<close>

definition from_tel :: "string \<Rightarrow> string" where
  "from_tel path = ''tel:'' @ path"

text \<open>
  The messages of a channel: \<^verbatim>\<open>Msg.objects.filter(channel=channel, ...)\<close> compares the
  foreign key.
\<close>

definition on_channel :: "channel \<Rightarrow> msg \<Rightarrow> bool" where
  "on_channel c m = (map_option ch_id (msg_channel m) = Some (ch_id c))"

text \<open>
  \<^verbatim>\<open>filter(id=x)\<close> with a request parameter: the ORM converts the string with
  \<^verbatim>\<open>int\<close>, which raises ValueError on anything else; \<^verbatim>\<open>id=None\<close> selects nothing.
\<close>

definition id_filter :: "env \<Rightarrow> string option \<Rightarrow> py_error + (msg \<Rightarrow> bool)" where
  "id_filter e x =
     (case x of
        None \<Rightarrow> Inr (\<lambda>m. False)
      | Some v \<Rightarrow> (case py_int e v of
                    None \<Rightarrow> Inl ValueError
                  | Some i \<Rightarrow> Inr (\<lambda>m. int (msg_id m) = i)))"

text \<open>
  \<^verbatim>\<open>filter(external_id=x)\<close>: equality on the column; \<^verbatim>\<open>external_id=None\<close> selects
  the rows whose column is NULL.
\<close>

definition external_id_is :: "string option \<Rightarrow> msg \<Rightarrow> bool" where
  "external_id_is x m = (msg_external_id m = x)"

text \<open>
  The lookup nearly every handler starts with:
  \<^verbatim>\<open>Channel.objects.filter(uuid=uuid, is_active=True, channel_type=t).exclude(org=None).first()\<close>.
\<close>

definition channel_by_uuid :: "channel_type \<Rightarrow> store \<Rightarrow> string \<Rightarrow> channel option" where
  "channel_by_uuid t s u =
     first (filter (\<lambda>c. ch_uuid c = u \<and> ch_is_active c \<and> ch_type c = t \<and> ch_org c \<noteq> None)
              (channels s))"

text \<open>
  The status branch that the Kannel, Clickatell and Plivo handlers share word for word: SENT
  only for the messages of the queryset that are PENDING, QUEUED or WIRED, DELIVERED and
  FAILED for all of them. Clickatell and Plivo also report each failure to
  \<^verbatim>\<open>Channel.track_status\<close>.
\<close>

definition not_yet_sent :: "msg \<Rightarrow> bool" where
  "not_yet_sent m = (msg_status m \<in> {PENDING, QUEUED, WIRED})"

definition status_lookup :: "(string \<rightharpoonup> msg_status) \<Rightarrow> string option \<Rightarrow> msg_status option" where
  "status_lookup tbl code = (case code of None \<Rightarrow> None | Some c \<Rightarrow> tbl c)"

definition track_failed :: "channel \<Rightarrow> (msg \<Rightarrow> bool) \<Rightarrow> store \<Rightarrow> store" where
  "track_failed c sms s =
     add_effects (map (\<lambda>m. TrackStatus (ch_id c) ''Failed'') (filter sms (msgs s))) s"

text \<open>\<^verbatim>\<open>bcast = sms.first().broadcast; if bcast: bcast.update()\<close>.\<close>

definition update_broadcast :: "(msg \<Rightarrow> bool) \<Rightarrow> store \<Rightarrow> store" where
  "update_broadcast sms s =
     (case first (filter sms (msgs s)) of
        None \<Rightarrow> s
      | Some m \<Rightarrow> (case msg_broadcast m of
                    None \<Rightarrow> s
                  | Some b \<Rightarrow> add_effects [BroadcastUpdate b] s))"

section \<open>KannelHandler\<close>

definition kannel_STATUS_CHOICES :: "string \<rightharpoonup> msg_status" where
  "kannel_STATUS_CHOICES =
     [''1'' \<mapsto> DELIVERED, ''2'' \<mapsto> FAILED, ''4'' \<mapsto> SENT, ''8'' \<mapsto> SENT, ''16'' \<mapsto> FAILED]"

definition kannel_status :: "env \<Rightarrow> store \<Rightarrow> request \<Rightarrow> channel \<Rightarrow> outcome \<times> store" where
  "kannel_status e s r c =
     (let sms_id = get_param r ''id'' None; status_code = get_param r ''status'' None in
      if \<not> truthy sms_id \<and> \<not> truthy status_code then
        (HttpResponse ''Missing one of 'id' or 'status' in request parameters.'' 400, s)
      else
        case id_filter e sms_id of
          Inl err \<Rightarrow> (Raised err, s)
        | Inr has_id \<Rightarrow>
            (let sms = (\<lambda>m. on_channel c m \<and> has_id m) in
             if filter sms (msgs s) = [] then
               (HttpResponse (''Message with external id of '' @ apos # str_opt sms_id
                                @ apos # '' not found'') 400, s)
             else
               case status_lookup kannel_STATUS_CHOICES status_code of
                 None \<Rightarrow>
                   (HttpResponse (''Unrecognized status code: '' @ apos # str_opt status_code
                                    @ apos # '', ignoring message.'') 401, s)
               | Some st \<Rightarrow>
                   (HttpResponse ''SMS Status Updated'' 200,
                    if st = SENT then update_msgs (\<lambda>m. sms m \<and> not_yet_sent m) status_sent s
                    else if st = DELIVERED then update_msgs sms status_delivered s
                    else if st = FAILED then update_msgs sms fail s
                    else s)))"

text \<open>
  The date of the message is computed from \<^verbatim>\<open>ts\<close> but not passed on: the
  \<^verbatim>\<open>date\<close> argument of the call is commented out in the source.
\<close>

definition kannel_receive :: "env \<Rightarrow> store \<Rightarrow> request \<Rightarrow> channel \<Rightarrow> outcome \<times> store" where
  "kannel_receive e s r c =
     (case (get_param r ''id'' None, get_param r ''ts'' None, get_param r ''message'' None,
            get_param r ''sender'' None) of
        (Some sms_id, Some sms_ts, Some sms_message, Some sms_sender) \<Rightarrow>
          (case py_int e sms_ts of
             None \<Rightarrow> (Raised ValueError, s)
           | Some ts \<Rightarrow>
               (case utcfromtimestamp e ts of
                  None \<Rightarrow> (Raised ValueError, s)
                | Some sms_date \<Rightarrow>
                    (let gmt_date = localize e ''GMT'' sms_date;
                         urn = from_tel sms_sender;
                         (sms, s1) = create_incoming e s c urn sms_message None None PENDING
                     in (HttpResponse (''SMS Accepted: '' @ str_nat (msg_id sms)) 200,
                         set_external_id (msg_id sms) (Some sms_id) s1))))
      | _ \<Rightarrow>
          (HttpResponse
             ''Missing one of 'message', 'sender', 'id' or 'ts' in request parameters.'' 400, s))"

definition KannelHandler_post :: "env \<Rightarrow> store \<Rightarrow> request \<Rightarrow> outcome \<times> store" where
  "KannelHandler_post e s r =
     (let action = lower (kw_action r); request_uuid = kw_uuid r in
      case channel_by_uuid TYPE_KANNEL s request_uuid of
        None \<Rightarrow> (HttpResponse (''Channel not found for id: '' @ request_uuid) 400, s)
      | Some c \<Rightarrow>
          if action = ''status'' then kannel_status e s r c
          else if action = ''receive'' then kannel_receive e s r c
          else (HttpResponse ''Not handled'' 400, s))"

section \<open>ClickatellHandler\<close>

text \<open>
  Modelled from the spec: the constants \<^verbatim>\<open>Channel.CONFIG_API_ID\<close> and
  \<^verbatim>\<open>Channel.CONFIG_AUTH_TOKEN\<close> of \<^verbatim>\<open>temba.channels.models\<close>, which is not among
  the sources: the keys of the API id and of the auth token in a channel's configuration.
\<close>

definition CONFIG_API_ID :: string where
  "CONFIG_API_ID = ''api_id''"

definition CONFIG_AUTH_TOKEN :: string where
  "CONFIG_AUTH_TOKEN = ''auth_token''"

definition clickatell_STATUS_CHOICES :: "string \<rightharpoonup> msg_status" where
  "clickatell_STATUS_CHOICES =
     [''001'' \<mapsto> FAILED, ''002'' \<mapsto> WIRED, ''003'' \<mapsto> SENT, ''004'' \<mapsto> DELIVERED,
      ''005'' \<mapsto> FAILED, ''006'' \<mapsto> FAILED, ''007'' \<mapsto> FAILED, ''008'' \<mapsto> WIRED,
      ''009'' \<mapsto> FAILED, ''010'' \<mapsto> FAILED, ''011'' \<mapsto> WIRED, ''012'' \<mapsto> FAILED,
      ''014'' \<mapsto> FAILED]"

definition clickatell_status :: "env \<Rightarrow> store \<Rightarrow> request \<Rightarrow> channel \<Rightarrow> outcome \<times> store" where
  "clickatell_status e s r c =
     (let sms_id = get_param r ''apiMsgId'' None; status_code = get_param r ''status'' None in
      if sms_id = None \<or> status_code = None then
        (HttpResponse ''Missing one of 'apiMsgId' or 'status' in request parameters.'' 200, s)
      else
        (let sms = (\<lambda>m. on_channel c m \<and> external_id_is sms_id m) in
         if filter sms (msgs s) = [] then
           (HttpResponse (''Message with external id of '' @ apos # str_opt sms_id
                            @ apos # '' not found'') 400, s)
         else
           case status_lookup clickatell_STATUS_CHOICES status_code of
             None \<Rightarrow>
               (HttpResponse (''Unrecognized status code: '' @ apos # str_opt status_code
                                @ apos # '', ignoring message.'') 401, s)
           | Some st \<Rightarrow>
               (let s1 = (if st = SENT then
                            update_msgs (\<lambda>m. sms m \<and> not_yet_sent m) status_sent s
                          else if st = DELIVERED then update_msgs sms status_delivered s
                          else if st = FAILED then track_failed c sms (update_msgs sms fail s)
                          else s)
                in (HttpResponse ''SMS Status Updated'' 200, update_broadcast sms s1))))"

definition clickatell_receive :: "env \<Rightarrow> store \<Rightarrow> request \<Rightarrow> channel \<Rightarrow> outcome \<times> store" where
  "clickatell_receive e s r c =
     (case (get_param r ''from'' None, get_param r ''text'' None, get_param r ''moMsgId'' None,
            get_param r ''timestamp'' None) of
        (Some sms_from, Some sms_text, Some sms_id, Some sms_timestamp) \<Rightarrow>
          (case parse_datetime e sms_timestamp of
             Inl err \<Rightarrow> (Raised err, s)
           | Inr None \<Rightarrow> (Raised AttributeError, s)
           | Inr (Some sms_date) \<Rightarrow>
               (let gmt_date = localize e ''Etc/GMT-2'' sms_date;
                    charset = get_param r ''charset'' (Some ''utf-8'');
                    decoded = (if charset = Some ''UTF-16BE'' then decode_utf16be e sms_text
                               else if charset = Some ''ISO-8859-1''
                                    then Some (recode_latin1 e sms_text)
                               else Some sms_text)
                in case decoded of
                     None \<Rightarrow> (Raised UnicodeError, s)
                   | Some txt \<Rightarrow>
                       (let (sms, s1) = create_incoming e s c (from_tel sms_from) txt
                                          (Some gmt_date) None PENDING
                        in (HttpResponse (''SMS Accepted: '' @ str_nat (msg_id sms)) 200,
                            set_external_id (msg_id sms) (Some sms_id) s1))))
      | _ \<Rightarrow>
          (HttpResponse
             ''Missing one of 'from', 'text', 'moMsgId' or 'timestamp' in request parameters.''
             200, s))"

definition ClickatellHandler_post :: "env \<Rightarrow> store \<Rightarrow> request \<Rightarrow> outcome \<times> store" where
  "ClickatellHandler_post e s r =
     (let action = lower (kw_action r); request_uuid = kw_uuid r in
      case channel_by_uuid TYPE_CLICKATELL s request_uuid of
        None \<Rightarrow> (HttpResponse (''Channel not found for id: '' @ request_uuid) 400, s)
      | Some c \<Rightarrow>
          (case get_param r ''api_id'' None of
             None \<Rightarrow>
               if action = ''status'' then clickatell_status e s r c
               else if action = ''receive'' then clickatell_receive e s r c
               else (HttpResponse ''Not handled'' 400, s)
           | Some api_id \<Rightarrow>
               (case ch_config c CONFIG_API_ID of
                  None \<Rightarrow> (Raised KeyError, s)
                | Some configured \<Rightarrow>
                    if configured \<noteq> api_id then
                      (HttpResponse (''Invalid API id for message delivery: '' @ api_id) 400, s)
                    else if action = ''status'' then clickatell_status e s r c
                    else if action = ''receive'' then clickatell_receive e s r c
                    else (HttpResponse ''Not handled'' 400, s))))"

section \<open>PlivoHandler\<close>

text \<open>The lookup of the Plivo handler has no \<^verbatim>\<open>exclude(org=None)\<close>.\<close>

definition plivo_channel :: "store \<Rightarrow> string \<Rightarrow> channel option" where
  "plivo_channel s request_uuid =
     first (filter (\<lambda>c. ch_is_active c \<and> ch_uuid c = request_uuid \<and> ch_type c = TYPE_PLIVO)
              (channels s))"

definition plivo_STATUS_CHOICES :: "string \<rightharpoonup> msg_status" where
  "plivo_STATUS_CHOICES =
     [''queued'' \<mapsto> WIRED, ''sent'' \<mapsto> SENT, ''delivered'' \<mapsto> DELIVERED,
      ''undelivered'' \<mapsto> SENT, ''rejected'' \<mapsto> FAILED]"

text \<open>
  \<^verbatim>\<open>if channel_address[0] != '+': channel_address = '+' + channel_address\<close>; the index
  raises IndexError on the empty string.
\<close>

definition plivo_address :: "string \<Rightarrow> py_error + string" where
  "plivo_address a =
     (case a of
        [] \<Rightarrow> Inl IndexError
      | x # _ \<Rightarrow> Inr (if x \<noteq> CHR ''+'' then CHR ''+'' # a else a))"

definition plivo_status ::
  "env \<Rightarrow> store \<Rightarrow> request \<Rightarrow> channel option \<Rightarrow> string \<Rightarrow> string \<Rightarrow> outcome \<times> store" where
  "plivo_status e s r channel sms_from sms_id0 =
     (case get_param r ''Status'' None of
        None \<Rightarrow> (HttpResponse ''Missing 'Status' in request parameters.'' 400, s)
      | Some plivo_status \<Rightarrow>
          (case channel of
             None \<Rightarrow> (HttpResponse (''Channel not found for number: '' @ sms_from) 400, s)
           | Some c \<Rightarrow>
               (case plivo_address sms_from of
                  Inl err \<Rightarrow> (Raised err, s)
                | Inr channel_address \<Rightarrow>
                    if ch_address c \<noteq> channel_address then
                      (HttpResponse (''Channel not found for number: '' @ sms_from) 400, s)
                    else
                      (let sms_id = (case get_param r ''ParentMessageUUID'' None of
                                       None \<Rightarrow> sms_id0 | Some parent_id \<Rightarrow> parent_id);
                           sms = (\<lambda>m. on_channel c m \<and> external_id_is (Some sms_id) m) in
                       if filter sms (msgs s) = [] then
                         (HttpResponse (''Message with external id of '' @ apos # sms_id
                                          @ apos # '' not found'') 400, s)
                       else
                         case plivo_STATUS_CHOICES plivo_status of
                           None \<Rightarrow>
                             (HttpResponse (''Unrecognized status: '' @ apos # plivo_status
                                              @ apos # '', ignoring message.'') 401, s)
                         | Some st \<Rightarrow>
                             (let s1 = (if st = SENT then
                                          update_msgs (\<lambda>m. sms m \<and> not_yet_sent m) status_sent s
                                        else if st = DELIVERED then
                                          update_msgs sms status_delivered s
                                        else if st = FAILED then
                                          track_failed c sms (update_msgs sms fail s)
                                        else s)
                              in (HttpResponse ''Status Updated'' 200,
                                  update_broadcast sms s1))))))"

definition plivo_receive ::
  "env \<Rightarrow> store \<Rightarrow> request \<Rightarrow> channel option \<Rightarrow> string \<Rightarrow> string \<Rightarrow> string
     \<Rightarrow> outcome \<times> store" where
  "plivo_receive e s r channel sms_from sms_to sms_id =
     (case get_param r ''Text'' None of
        None \<Rightarrow> (HttpResponse ''Missing 'Text' in request parameters.'' 400, s)
      | Some sms_text \<Rightarrow>
          (case channel of
             None \<Rightarrow> (HttpResponse (''Channel not found for number: '' @ sms_to) 400, s)
           | Some c \<Rightarrow>
               (case plivo_address sms_to of
                  Inl err \<Rightarrow> (Raised err, s)
                | Inr channel_address \<Rightarrow>
                    if ch_address c \<noteq> channel_address then
                      (HttpResponse (''Channel not found for number: '' @ sms_to) 400, s)
                    else
                      (let (sms, s1) = create_incoming e s c (from_tel sms_from) sms_text
                                         None None PENDING
                       in (HttpResponse (''SMS accepted: '' @ str_nat (msg_id sms)) 200,
                           set_external_id (msg_id sms) (Some sms_id) s1)))))"

definition PlivoHandler_post :: "env \<Rightarrow> store \<Rightarrow> request \<Rightarrow> outcome \<times> store" where
  "PlivoHandler_post e s r =
     (let action = lower (kw_action r); request_uuid = kw_uuid r in
      case (get_param r ''From'' None, get_param r ''To'' None,
            get_param r ''MessageUUID'' None) of
        (Some sms_from, Some sms_to, Some sms_id) \<Rightarrow>
          (let channel = plivo_channel s request_uuid in
           if action = ''status'' then plivo_status e s r channel sms_from sms_id
           else if action = ''receive'' then plivo_receive e s r channel sms_from sms_to sms_id
           else (HttpResponse ''Not handled'' 400, s))
      | _ \<Rightarrow>
          (HttpResponse
             ''Missing one of 'From', 'To', or 'MessageUUID' in request parameters.'' 400, s))"

section \<open>ViberHandler\<close>

definition viber_status :: "env \<Rightarrow> store \<Rightarrow> json \<Rightarrow> channel \<Rightarrow> outcome \<times> store" where
  "viber_status e s body c =
     (case subscript body ''message_token'' of
        Inl err \<Rightarrow> (Raised err, s)
      | Inr external_id \<Rightarrow>
          (case first (filter (\<lambda>m. on_channel c m \<and> msg_direction m = OUTGOING
                                    \<and> external_id_is (jcolumn e external_id) m) (msgs s)) of
             None \<Rightarrow>
               (HttpResponse (''Message with external id of '' @ apos # jtext e external_id
                                @ apos # '' not found'') 200, s)
           | Some m \<Rightarrow>
               (HttpResponse (''Msg '' @ str_nat (msg_id m) @ '' updated'') 200,
                update_msgs (\<lambda>x. msg_id x = msg_id m) status_delivered s)))"

text \<open>
  \<^verbatim>\<open>datetime.utcfromtimestamp(body['time'])\<close>: a number (a boolean is one in Python);
  anything else is a TypeError.
\<close>

definition timestamp_of_json :: "env \<Rightarrow> json \<Rightarrow> py_error + datetime" where
  "timestamp_of_json e j =
     (case j of
        JNum n \<Rightarrow> (case utcfromtimestamp e n of None \<Rightarrow> Inl ValueError | Some d \<Rightarrow> Inr d)
      | JBool b \<Rightarrow> (case utcfromtimestamp e (if b then 1 else 0) of
                     None \<Rightarrow> Inl ValueError | Some d \<Rightarrow> Inr d)
      | _ \<Rightarrow> Inl TypeError)"

definition viber_receive :: "env \<Rightarrow> store \<Rightarrow> json \<Rightarrow> channel \<Rightarrow> outcome \<times> store" where
  "viber_receive e s body c =
     (case contains_all body [''message_token'', ''phone_number'', ''time'', ''message''] of
        Inl err \<Rightarrow> (Raised err, s)
      | Inr False \<Rightarrow>
          (HttpResponse
             ''Missing one of 'message_token', 'phone_number', 'time', or 'message' in request parameters.''
             400, s)
      | Inr True \<Rightarrow>
          (case subscript body ''time'' of
             Inl err \<Rightarrow> (Raised err, s)
           | Inr t \<Rightarrow>
               (case timestamp_of_json e t of
                  Inl err \<Rightarrow> (Raised err, s)
                | Inr msg_date \<Rightarrow>
                    (case subscript body ''phone_number'' of
                       Inl err \<Rightarrow> (Raised err, s)
                     | Inr phone \<Rightarrow>
                         (case subscript body ''message'' of
                            Inl err \<Rightarrow> (Raised err, s)
                          | Inr message \<Rightarrow>
                              (case subscript message ''text'' of
                                 Inl err \<Rightarrow> (Raised err, s)
                               | Inr txt \<Rightarrow>
                                   (let (m, s1) = create_incoming e s c
                                                    (from_tel (jtext e phone)) (jtext e txt)
                                                    (Some msg_date) None PENDING
                                    in case subscript body ''message_token'' of
                                         Inl err \<Rightarrow> (Raised err, s1)
                                       | Inr token \<Rightarrow>
                                           (HttpResponse (''Msg Accepted: ''
                                                            @ str_nat (msg_id m)) 200,
                                            set_external_id (msg_id m) (jcolumn e token)
                                              s1))))))))"

definition ViberHandler_post :: "env \<Rightarrow> store \<Rightarrow> request \<Rightarrow> outcome \<times> store" where
  "ViberHandler_post e s r =
     (let action = lower (kw_action r); request_uuid = kw_uuid r in
      case channel_by_uuid TYPE_VIBER s request_uuid of
        None \<Rightarrow> (HttpResponse (''Channel not found for id: '' @ request_uuid) 400, s)
      | Some c \<Rightarrow>
          (case json_body r of
             None \<Rightarrow> (HttpResponse (''Invalid JSON in POST body: '' @ json_error r) 400, s)
           | Some body \<Rightarrow>
               if action = ''status'' then viber_status e s body c
               else if action = ''receive'' then viber_receive e s body c
               else (HttpResponse ''Not handled, unknown action'' 400, s)))"

section \<open>VumiHandler\<close>

text \<open>
  \<^verbatim>\<open>"ussd" in body.get('transport_name', '') or body.get('transport_type') == 'ussd'\<close>
  on a dictionary.
\<close>

definition vumi_is_ussd :: "(string \<times> json) list \<Rightarrow> py_error + bool" where
  "vumi_is_ussd body =
     (case contains (case map_of body ''transport_name'' of None \<Rightarrow> JStr [] | Some v \<Rightarrow> v)
             ''ussd'' of
        Inl err \<Rightarrow> Inl err
      | Inr b \<Rightarrow> Inr (b \<or> map_of body ''transport_type'' = Some (JStr ''ussd'')))"

text \<open>
  The nack and delivery report branches of an event, on the queryset \<open>message\<close>. A
  delivery report whose status is \<^verbatim>\<open>failed\<close> is ignored; any other marks the first
  message delivered if it is WIRED.
\<close>

definition vumi_nack :: "(string \<times> json) list \<Rightarrow> (msg \<Rightarrow> bool) \<Rightarrow> store \<Rightarrow> store" where
  "vumi_nack body message s =
     (if map_of body ''nack_reason'' = Some (JStr ''Unknown address.'') then
        (case first (filter message (msgs s)) of
           None \<Rightarrow> s
         | Some m \<Rightarrow> add_effects [ContactStopped (msg_urn m)] s)
      else s)"

definition vumi_delivery_report ::
  "(string \<times> json) list \<Rightarrow> (msg \<Rightarrow> bool) \<Rightarrow> store \<Rightarrow> store" where
  "vumi_delivery_report body message s =
     (case first (filter message (msgs s)) of
        None \<Rightarrow> s
      | Some m \<Rightarrow>
          if map_of body ''delivery_status'' = Some (JStr ''failed'') then s
          else if msg_status m = WIRED then
            update_msgs (\<lambda>x. msg_id x = msg_id m) status_delivered s
          else s)"

definition vumi_event ::
  "env \<Rightarrow> store \<Rightarrow> (string \<times> json) list \<Rightarrow> channel \<Rightarrow> outcome \<times> store" where
  "vumi_event e s body c =
     (if map_of body ''event_type'' = None \<and> map_of body ''user_message_id'' = None then
        (HttpResponse ''Missing event_type or user_message_id, ignoring message'' 400, s)
      else
        case map_of body ''user_message_id'' of
          None \<Rightarrow> (Raised KeyError, s)
        | Some external_id \<Rightarrow>
            (case map_of body ''event_type'' of
               None \<Rightarrow> (Raised KeyError, s)
             | Some status \<Rightarrow>
                 (let message = (\<lambda>m. on_channel c m
                                       \<and> external_id_is (jcolumn e external_id) m) in
                  if filter message (msgs s) = [] then
                    (HttpResponse (''Message with external id of '' @ apos
                                     # jtext e external_id @ apos # '' not found'') 404, s)
                  else if status \<notin> {JStr ''ack'', JStr ''nack'', JStr ''delivery_report''} then
                    (HttpResponse (''Unknown status '' @ apos # jtext e status @ apos
                                     # '', ignoring'') 200, s)
                  else
                    (let s1 = (if status = JStr ''ack'' then
                                 update_msgs (\<lambda>m. message m \<and> not_yet_sent m)
                                   (\<lambda>m. m\<lparr>msg_status := SENT\<rparr>) s
                               else s);
                         s2 = (if status = JStr ''nack'' then vumi_nack body message s1
                               else if status = JStr ''delivery_report'' then
                                 vumi_delivery_report body message s1
                               else s1)
                     in (HttpResponse ''Message Status Updated'' 200, s2)))))"

text \<open>
  The check of a received message is
  \<^verbatim>\<open>if not any(attr in body for attr in (...))\<close>: it rejects a body that has none of
  the four fields. A field that is missing alone raises KeyError where it is read.
\<close>

definition vumi_receive ::
  "env \<Rightarrow> store \<Rightarrow> (string \<times> json) list \<Rightarrow> channel \<Rightarrow> outcome \<times> store" where
  "vumi_receive e s body c =
     (if \<not> (\<exists>attr \<in> set [''timestamp'', ''from_addr'', ''content'', ''message_id''].
               map_of body attr \<noteq> None) then
        (HttpResponse
           ''Missing one of timestamp, from_addr, content or message_id, ignoring message''
           400, s)
      else
        case map_of body ''timestamp'' of
          None \<Rightarrow> (Raised KeyError, s)
        | Some (JStr ts) \<Rightarrow>
            (case strptime e ts ''%Y-%m-%d %H:%M:%S.%f'' of
               None \<Rightarrow> (Raised ValueError, s)
             | Some message_date \<Rightarrow>
                 (let gmt_date = localize e ''GMT'' message_date;
                      status = (if map_of body ''session_event'' = Some (JStr ''close'')
                                then INTERRUPTED else PENDING) in
                  case map_of body ''from_addr'' of
                    None \<Rightarrow> (Raised KeyError, s)
                  | Some from_addr \<Rightarrow>
                      (case map_of body ''content'' of
                         None \<Rightarrow> (Raised KeyError, s)
                       | Some content \<Rightarrow>
                           (let (message, s1) = create_incoming e s c
                                                  (from_tel (jtext e from_addr))
                                                  (jtext e content) (Some gmt_date) None status
                            in if status \<noteq> INTERRUPTED then
                                 (case map_of body ''message_id'' of
                                    None \<Rightarrow> (Raised KeyError, s1)
                                  | Some message_id \<Rightarrow>
                                      (HttpResponse (''Message Accepted: ''
                                                       @ str_nat (msg_id message)) 200,
                                       set_external_id (msg_id message) (jcolumn e message_id)
                                         s1))
                               else
                                 (HttpResponse (''Message Accepted: ''
                                                  @ str_nat (msg_id message)) 200, s1)))))
        | Some _ \<Rightarrow> (Raised TypeError, s))"

definition VumiHandler_post :: "env \<Rightarrow> store \<Rightarrow> request \<Rightarrow> outcome \<times> store" where
  "VumiHandler_post e s r =
     (let action = lower (kw_action r); request_uuid = kw_uuid r in
      case json_body r of
        None \<Rightarrow> (HttpResponse (''Invalid JSON: '' @ json_error r) 400, s)
      | Some (JObj body) \<Rightarrow>
          (case vumi_is_ussd body of
             Inl err \<Rightarrow> (Raised err, s)
           | Inr is_ussd \<Rightarrow>
               (let channel_type = (if is_ussd then TYPE_VUMI_USSD else TYPE_VUMI) in
                case channel_by_uuid channel_type s request_uuid of
                  None \<Rightarrow> (HttpResponse (''Channel not found for id: '' @ request_uuid) 404, s)
                | Some c \<Rightarrow>
                    if action = ''event'' then vumi_event e s body c
                    else if action = ''receive'' then vumi_receive e s body c
                    else (HttpResponse ''Not handled'' 400, s)))
      | Some _ \<Rightarrow> (Raised AttributeError, s))"

section \<open>TwimlAPIHandler and TwilioHandler\<close>

text \<open>
  \<^verbatim>\<open>TwilioHandler\<close> inherits \<^verbatim>\<open>post\<close> from \<^verbatim>\<open>TwimlAPIHandler\<close> and overrides
  \<^verbatim>\<open>get_receive_channel\<close> and \<^verbatim>\<open>get_channel_type\<close>; the class is a parameter of the
  model of \<^verbatim>\<open>post\<close>.
\<close>

datatype twiml_class = TwimlAPIHandler | TwilioHandler

fun get_channel_type :: "twiml_class \<Rightarrow> channel_type" where
  "get_channel_type TwimlAPIHandler = TYPE_TWIML"
| "get_channel_type TwilioHandler = TYPE_TWILIO"

definition get_ringing_channel :: "twiml_class \<Rightarrow> store \<Rightarrow> string \<Rightarrow> channel option" where
  "get_ringing_channel self s to_number =
     first (filter (\<lambda>c. ch_address c = to_number \<and> ch_type c = get_channel_type self
                        \<and> CHR ''A'' \<in> set (ch_role c) \<and> ch_is_active c \<and> ch_org c \<noteq> None)
              (channels s))"

fun get_receive_channel :: "twiml_class \<Rightarrow> store \<Rightarrow> string \<Rightarrow> string \<Rightarrow> channel option" where
  "get_receive_channel TwimlAPIHandler s channel_uuid to_number =
     first (filter (\<lambda>c. ch_uuid c = channel_uuid \<and> ch_is_active c
                        \<and> ch_type c = get_channel_type TwimlAPIHandler \<and> ch_org c \<noteq> None)
              (channels s))"
| "get_receive_channel TwilioHandler s channel_uuid to_number =
     first (filter (\<lambda>c. ch_address c = to_number \<and> ch_is_active c \<and> ch_org c \<noteq> None)
              (channels s))"

text \<open>
  \<^verbatim>\<open>get_client(channel).auth[1]\<close>, the auth token the validator is built with: the
  organization's Twilio client for a messaging service channel, the channel's IVR client
  otherwise. \<open>None\<close> when there is no client, where the attribute access raises.
\<close>

definition get_client_auth :: "channel \<Rightarrow> string option" where
  "get_client_auth c =
     (if ch_type c = TYPE_TWILIO_MESSAGING_SERVICE then
        (case ch_org c of None \<Rightarrow> None | Some org \<Rightarrow> twilio_auth org)
      else ch_ivr_auth c)"

definition signature :: "request \<Rightarrow> string" where
  "signature r = (case META r ''HTTP_X_TWILIO_SIGNATURE'' of None \<Rightarrow> [] | Some v \<Rightarrow> v)"

definition twiml_url :: "env \<Rightarrow> request \<Rightarrow> string" where
  "twiml_url e r = ''https://'' @ TEMBA_HOST e @ full_path r"

text \<open>\<^verbatim>\<open>s.partition(':')[2]\<close>: what follows the first colon.\<close>

definition after_colon :: "string \<Rightarrow> string" where
  "after_colon t = drop 1 (dropWhile (\<lambda>c. c \<noteq> CHR '':'') t)"

text \<open>
  The call branch: a ringing inbound call to a number that a channel answers. When the
  signature does not validate, the branch falls through to the message actions
  (\<open>None\<close>).
\<close>

definition twiml_call ::
  "twiml_class \<Rightarrow> env \<Rightarrow> store \<Rightarrow> request \<Rightarrow> string \<Rightarrow> (outcome \<times> store) option" where
  "twiml_call self e s r to_number =
     (case get_ringing_channel self s to_number of
        None \<Rightarrow>
          Some (HttpResponse
                  (twiml_say_hangup e
                     ''Sorry, there is no channel configured to take this call. Goodbye.'')
                  200, s)
      | Some c \<Rightarrow>
          if get_channel_type self = TYPE_TWILIO
             \<and> \<not> (case ch_org c of None \<Rightarrow> False | Some org \<Rightarrow> connected_to_twilio org) then
            Some (HttpResponse ''No Twilio account is connected'' 400, s)
          else
            case get_client_auth c of
              None \<Rightarrow> Some (Raised AttributeError, s)
            | Some token \<Rightarrow>
                if validate e token (twiml_url e r) (POST r) (signature r) then
                  (case get_param r ''From'' None of
                     None \<Rightarrow> Some (Raised ValueError, s)
                   | Some from_number \<Rightarrow>
                       (let urn = from_tel from_number;
                            org = (case ch_org c of None \<Rightarrow> 0 | Some org \<Rightarrow> org_id org);
                            s1 = add_effects [ContactGetOrCreate org urn] s in
                        case find_flow_for_inbound_call e urn of
                          Some flow \<Rightarrow>
                            Some (HttpResponse (handle_call e flow) 200,
                                  add_effects [IVRCallCreated (ch_id c) urn flow,
                                               FlowRunCreated flow urn] s1)
                        | None \<Rightarrow>
                            Some (HttpResponse (twiml_say_hangup e []) 200,
                                  add_effects [TriggerCaught urn ''missed_call'' (ch_id c)] s1)))
                else None)"

definition twiml_callback ::
  "twiml_class \<Rightarrow> env \<Rightarrow> store \<Rightarrow> request \<Rightarrow> outcome \<times> store" where
  "twiml_callback self e s r =
     (let smsId = GET r ''id''; status = POST r ''SmsStatus'' in
      case id_filter e smsId of
        Inl err \<Rightarrow> (Raised err, s)
      | Inr has_id \<Rightarrow>
          (case first (filter has_id (msgs s)) of
             None \<Rightarrow> (HttpResponse (''No message found with id: '' @ str_opt smsId) 400, s)
           | Some sms \<Rightarrow>
               (case msg_org sms of
                  None \<Rightarrow> (Raised AttributeError, s)
                | Some org \<Rightarrow>
                    if get_channel_type self
                         \<in> {TYPE_TWILIO, TYPE_TWIML, TYPE_TWILIO_MESSAGING_SERVICE}
                       \<and> \<not> connected_to_twilio org then
                      (HttpResponse ''No Twilio account is connected'' 400, s)
                    else
                      (let channel =
                             (case msg_channel sms of
                                Some c \<Rightarrow> Some c
                              | None \<Rightarrow>
                                  first (filter (\<lambda>c. map_option org_id (ch_org c)
                                                        = Some (org_id org)
                                                      \<and> ch_type c = get_channel_type self)
                                           (channels s))) in
                       case channel of
                         None \<Rightarrow> (Raised AttributeError, s)
                       | Some c \<Rightarrow>
                           (case get_client_auth c of
                              None \<Rightarrow> (Raised AttributeError, s)
                            | Some token \<Rightarrow>
                                if \<not> validate e token (twiml_url e r) (POST r) (signature r)
                                then (Raised ValidationError, s)
                                else
                                  (HttpResponse [] 200,
                                   if status = Some ''sent'' then
                                     update_msgs (\<lambda>x. msg_id x = msg_id sms) status_sent s
                                   else if status = Some ''delivered'' then
                                     update_msgs (\<lambda>x. msg_id x = msg_id sms) status_delivered s
                                   else if status = Some ''failed'' then
                                     update_msgs (\<lambda>x. msg_id x = msg_id sms) fail s
                                   else s))))))"

text \<open>
  The loop over the attached media: one message per attachment; a missing
  \<^verbatim>\<open>MediaUrl<i>\<close> raises KeyError after the messages of the attachments before it.
\<close>

fun twiml_media ::
  "env \<Rightarrow> channel \<Rightarrow> string \<Rightarrow> request \<Rightarrow> nat list \<Rightarrow> store \<Rightarrow> py_error option \<times> store" where
  "twiml_media e c urn r [] s = (None, s)"
| "twiml_media e c urn r (i # is) s =
     (case POST r (''MediaUrl'' @ str_nat i) of
        None \<Rightarrow> (Some KeyError, s)
      | Some u \<Rightarrow>
          (let media_url = download_media e u;
               path = after_colon media_url;
               (m, s1) = create_incoming e s c urn path None (Some media_url) PENDING
           in twiml_media e c urn r is s1))"

definition twiml_received ::
  "twiml_class \<Rightarrow> env \<Rightarrow> store \<Rightarrow> request \<Rightarrow> string \<Rightarrow> outcome \<times> store" where
  "twiml_received self e s r to_number =
     (case get_receive_channel self s (kw_uuid r) to_number of
        None \<Rightarrow> (HttpResponse (''No active channel found for number: '' @ to_number) 400, s)
      | Some c \<Rightarrow>
          if get_channel_type self = TYPE_TWILIO
             \<and> \<not> (case ch_org c of None \<Rightarrow> False | Some org \<Rightarrow> connected_to_twilio org) then
            (HttpResponse ''No Twilio account is connected'' 400, s)
          else
            case get_client_auth c of
              None \<Rightarrow> (Raised AttributeError, s)
            | Some token \<Rightarrow>
                if \<not> validate e token (twiml_url e r) (POST r) (signature r) then
                  (Raised ValidationError, s)
                else
                  (case (POST r ''Body'', POST r ''From'') of
                     (Some body, Some from_number) \<Rightarrow>
                       (case (case POST r ''NumMedia'' of None \<Rightarrow> Some 0
                                                            | Some n \<Rightarrow> py_int e n) of
                          None \<Rightarrow> (Raised ValueError, s)
                        | Some n \<Rightarrow>
                            (case twiml_media e c (from_tel from_number) r [0..<nat n] s of
                               (Some err, s1) \<Rightarrow> (Raised err, s1)
                             | (None, s1) \<Rightarrow>
                                 (HttpResponse [] 201,
                                  if body \<noteq> [] then
                                    snd (create_incoming e s1 c (from_tel from_number) body
                                           None None PENDING)
                                  else s1)))
                   | _ \<Rightarrow> (Raised KeyError, s)))"

text \<open>The message actions, selected by the \<^verbatim>\<open>action\<close> of the query string.\<close>

definition twiml_messages ::
  "twiml_class \<Rightarrow> env \<Rightarrow> store \<Rightarrow> request \<Rightarrow> string \<Rightarrow> outcome \<times> store" where
  "twiml_messages self e s r to_number =
     (let action = (case GET r ''action'' of None \<Rightarrow> ''received'' | Some a \<Rightarrow> a) in
      if action = ''callback'' then twiml_callback self e s r
      else if action = ''received'' then twiml_received self e s r to_number
      else (HttpResponse ''Not Handled, unknown action'' 400, s))"

text \<open>
  \<^verbatim>\<open>to_number.startswith('+')\<close> raises AttributeError when the request has no
  \<^verbatim>\<open>To\<close>.
\<close>

definition TwimlAPIHandler_post ::
  "twiml_class \<Rightarrow> env \<Rightarrow> store \<Rightarrow> request \<Rightarrow> outcome \<times> store" where
  "TwimlAPIHandler_post self e s r =
     (let call_sid = get_param r ''CallSid'' None; direction = get_param r ''Direction'' None;
          status = get_param r ''CallStatus'' None; to_country = get_param r ''ToCountry'' None
      in
      case get_param r ''To'' None of
        None \<Rightarrow> (Raised AttributeError, s)
      | Some to0 \<Rightarrow>
          (let to_number = (if take 1 to0 \<noteq> ''+'' \<and> truthy to_country
                            then normalize_number e to0 (the to_country) else to0)
           in if to_number \<noteq> [] \<and> truthy call_sid \<and> direction = Some ''inbound''
                 \<and> status = Some ''ringing'' then
                (case twiml_call self e s r to_number of
                   Some result \<Rightarrow> result
                 | None \<Rightarrow> twiml_messages self e s r to_number)
              else twiml_messages self e s r to_number))"

section \<open>TwilioMessagingServiceHandler\<close>


section \<open>MageHandler\<close>






section \<open>InfobipHandler\<close>

text \<open>The view for GET requests, which receives messages.\<close>

definition InfobipHandler_get :: "env \<Rightarrow> store \<Rightarrow> request \<Rightarrow> outcome \<times> store" where
  "InfobipHandler_get e s r =
     (let action = lower (kw_action r); channel_uuid = kw_uuid r in
      case (get_param r ''sender'' None, get_param r ''text'' None,
            get_param r ''receiver'' None) of
        (Some sender, Some txt, Some receiver) \<Rightarrow>
          (case channel_by_uuid TYPE_INFOBIP s channel_uuid of
             None \<Rightarrow>
               (HttpResponse (''Channel with uuid: '' @ channel_uuid @ '' not found.'') 404, s)
           | Some c \<Rightarrow>
               if action = ''delivered'' then
                 (HttpResponse ''Illegal method, delivery reports must be POSTs'' 401, s)
               else if ch_address c \<noteq> CHR ''+'' # receiver then
                 (HttpResponse (''Channel with uuid: '' @ channel_uuid @ '' not found.'') 404, s)
               else
                 (let (sms, s1) = create_incoming e s c (from_tel sender) txt None None PENDING
                  in (HttpResponse (''SMS Accepted: '' @ str_nat (msg_id sms)) 200, s1)))
      | _ \<Rightarrow>
          (HttpResponse (''Missing parameters, must have 'sender', 'text' and 'receiver'' @ [apos])
             400, s))"

section \<open>BlackmynaHandler\<close>

text \<open>
  \<^verbatim>\<open>int(self.get_param('status', 0))\<close>: the default is the integer itself.
\<close>

definition int_param :: "env \<Rightarrow> request \<Rightarrow> string \<Rightarrow> int \<Rightarrow> int option" where
  "int_param e r name dflt =
     (case get_param r name None of None \<Rightarrow> Some dflt | Some v \<Rightarrow> py_int e v)"

definition blackmyna_status :: "env \<Rightarrow> store \<Rightarrow> request \<Rightarrow> channel \<Rightarrow> outcome \<times> store" where
  "blackmyna_status e s r c =
     (let msg_id' = get_param r ''id'' None in
      case int_param e r ''status'' 0 of
        None \<Rightarrow> (Raised ValueError, s)
      | Some status \<Rightarrow>
          (case first (filter (\<lambda>m. on_channel c m \<and> external_id_is msg_id' m) (msgs s)) of
             None \<Rightarrow> (HttpResponse (''No SMS message with id: '' @ str_opt msg_id') 400, s)
           | Some sms \<Rightarrow>
               (HttpResponse [] 200,
                if status = 8 then update_msgs (\<lambda>x. msg_id x = msg_id sms) status_sent s
                else if status = 1 then
                  update_msgs (\<lambda>x. msg_id x = msg_id sms) status_delivered s
                else if status \<in> {2, 16} then update_msgs (\<lambda>x. msg_id x = msg_id sms) fail s
                else s)))"

definition blackmyna_receive :: "env \<Rightarrow> store \<Rightarrow> request \<Rightarrow> channel \<Rightarrow> outcome \<times> store" where
  "blackmyna_receive e s r c =
     (case (get_param r ''to'' None, get_param r ''from'' None, get_param r ''text'' None) of
        (Some to_number, Some from_number, Some message) \<Rightarrow>
          if ch_address c \<noteq> to_number then
            (HttpResponse (''Invalid to number ['' @ to_number @ ''], expecting [''
                             @ ch_address c @ '']'') 400, s)
          else
            (HttpResponse [] 200,
             snd (create_incoming e s c (from_tel from_number) message None None PENDING))
      | _ \<Rightarrow> (HttpResponse ''Missing to, from or text parameters'' 400, s))"

definition BlackmynaHandler_get :: "env \<Rightarrow> store \<Rightarrow> request \<Rightarrow> outcome \<times> store" where
  "BlackmynaHandler_get e s r =
     (let channel_uuid = kw_uuid r in
      case channel_by_uuid TYPE_BLACKMYNA s channel_uuid of
        None \<Rightarrow>
          (HttpResponse (''Channel with uuid: '' @ channel_uuid @ '' not found.'') 400, s)
      | Some c \<Rightarrow>
          (let action = lower (kw_action r) in
           if action = ''status'' then blackmyna_status e s r c
           else if action = ''receive'' then blackmyna_receive e s r c
           else (HttpResponse (''Unrecognized action: '' @ action) 400, s)))"

section \<open>HighConnectionHandler\<close>




section \<open>ZenviaHandler\<close>




section \<open>Credentials\<close>


section \<open>Example data\<close>

text \<open>
  A small installation on which the properties below are exercised: stand-ins for the
  library functions, one organization, one channel of a given type, and one outgoing message
  on it with primary key 7 and external id 999.
\<close>

definition example_env :: env where
  "example_env =
     \<lparr>validate = (\<lambda>token url form sig. sig = ''signed:'' @ token),
      twiml_say_hangup = (\<lambda>t. ''<Response><Say>'' @ t @ ''</Say><Hangup/></Response>''),
      py_int = map_of [(''0'', 0), (''1'', 1), (''2'', 2), (''4'', 4), (''7'', 7), (''8'', 8),
                       (''111'', 111), (''120'', 120), (''1480000000'', 1480000000)],
      py_str = (\<lambda>j. case j of JNum n \<Rightarrow> (if n = 999 then ''999'' else ''0'') | _ \<Rightarrow> ''None''),
      json_dumps = (\<lambda>j. ''{}''),
      strptime = (\<lambda>v fmt. if v = ''2015-04-02T14:26:06'' then Some 1427984766
                            else if v = ''31/07/2013 14:45:00'' then Some 1375281900
                            else None),
      utcfromtimestamp = Some,
      parse_datetime = (\<lambda>v. if v = ''2014-04-18 03:54:20'' then Inr (Some 1397793260)
                              else Inr None),
      localize = (\<lambda>zone d. if zone = ''Etc/GMT-2'' then d - 7200
                            else if zone = ''America/Sao_Paulo'' then d + 10800 else d),
      decode_utf16be = Some,
      recode_latin1 = (\<lambda>t. t),
      now = 1480000000,
      TEMBA_HOST = ''rapidpro.io'',
      HOSTNAME = ''rapidpro.io'',
      MAGE_AUTH_TOKEN = ''sesame'',
      normalize_number = (\<lambda>number country. CHR ''+'' # number),
      download_media = (\<lambda>u. ''image/jpeg:'' @ u),
      find_flow_for_inbound_call = (\<lambda>urn. None),
      handle_call = (\<lambda>flow. ''<Response/>'')\<rparr>"

definition example_org :: org where
  "example_org =
     \<lparr>org_id = 1, connected_to_twilio = True, twilio_auth = Some ''secret'', is_anon = False,
      org_config = Map.empty\<rparr>"

definition example_channel :: "channel_type \<Rightarrow> channel" where
  "example_channel t =
     \<lparr>ch_id = 1, ch_uuid = ''c1'', ch_type = t, ch_address = ''+250788123123'',
      ch_role = ''SRA'', ch_is_active = True, ch_org = Some example_org,
      ch_config = [CONFIG_API_ID \<mapsto> ''12345''], ch_ivr_auth = Some ''secret''\<rparr>"

definition example_msg :: "channel \<Rightarrow> msg_status \<Rightarrow> msg" where
  "example_msg c st =
     \<lparr>msg_id = 7, msg_org = ch_org c, msg_channel = Some c, msg_urn = ''tel:+250788383383'',
      msg_text = ''hello'', msg_status = st, msg_direction = OUTGOING,
      msg_external_id = Some ''999'', msg_created_on = 1479000000, msg_media = None,
      msg_broadcast = None\<rparr>"

definition example_store :: "channel_type \<Rightarrow> msg_status \<Rightarrow> store" where
  "example_store t st =
     \<lparr>channels = [example_channel t], msgs = [example_msg (example_channel t) st],
      msg_seq = 8, effects = []\<rparr>"

definition example_request ::
  "string \<Rightarrow> (string \<rightharpoonup> string) \<Rightarrow> (string \<rightharpoonup> string) \<Rightarrow> request" where
  "example_request action query form =
     \<lparr>GET = query, POST = form, META = Map.empty, full_path = ''/handler/'',
      json_body = None, json_error = [], kw_action = action, kw_uuid = ''c1''\<rparr>"

section \<open>Properties\<close>

subsection \<open>Request parameters\<close>

text \<open>
  C10. A parameter read through \<^verbatim>\<open>get_param\<close> has the value of the query string when
  the name is in the query string, also when the form body has the name too; the value of
  the form body only when the query string does not have the name; and the default only
  when neither has it.
\<close>

theorem get_param_precedence:
  "(GET r name = Some v \<longrightarrow> get_param r name d = Some v) \<and>
   (GET r name = None \<and> POST r name = Some w \<longrightarrow> get_param r name d = Some w) \<and>
   (GET r name = None \<and> POST r name = None \<longrightarrow> get_param r name d = d)"
  by (simp add: get_param_def)

theorem get_param_precedence_witness:
  "GET \<lparr>GET = [''id'' \<mapsto> ''7''], POST = [''id'' \<mapsto> ''9'', ''status'' \<mapsto> ''1''],
         META = Map.empty, full_path = ''/kannel/status/u/'', json_body = None,
         json_error = '''', kw_action = ''status'', kw_uuid = ''u''\<rparr> ''id'' = Some ''7'' \<and>
   get_param \<lparr>GET = [''id'' \<mapsto> ''7''], POST = [''id'' \<mapsto> ''9'', ''status'' \<mapsto> ''1''],
         META = Map.empty, full_path = ''/kannel/status/u/'', json_body = None,
         json_error = '''', kw_action = ''status'', kw_uuid = ''u''\<rparr> ''id'' None = Some ''7''"
  using get_param_precedence
    [of "\<lparr>GET = [''id'' \<mapsto> ''7''], POST = [''id'' \<mapsto> ''9'', ''status'' \<mapsto> ''1''],
         META = Map.empty, full_path = ''/kannel/status/u/'', json_body = None,
         json_error = '''', kw_action = ''status'', kw_uuid = ''u''\<rparr>" "''id''" "''7''" None]
  by simp

subsection \<open>Evaluation\<close>

text \<open>The definitions that evaluating a handler on the example data unfolds.\<close>

lemmas example_defs = example_env_def example_org_def example_channel_def example_msg_def
  example_store_def example_request_def

lemmas python_defs = lower_def lower_char_def get_param_def truthy_def str_opt_def first_def
  status_lookup_def id_filter_def on_channel_def external_id_is_def channel_by_uuid_def

subsection \<open>Unrecognized status codes\<close>

text \<open>
  A status code outside the table of the handler changes nothing, whatever else the request
  holds; when the channel and the message are found, the response names the code.
\<close>

lemma kannel_unknown_unchanged:
  assumes "lower (kw_action r) = ''status''"
      and "status_lookup kannel_STATUS_CHOICES (get_param r ''status'' None) = None"
  shows "snd (KannelHandler_post e s r) = s"
  using assms
  by (simp add: KannelHandler_post_def kannel_status_def Let_def split: option.splits sum.splits)

lemma kannel_unknown_response:
  assumes "lower (kw_action r) = ''status''"
      and "channel_by_uuid TYPE_KANNEL s (kw_uuid r) = Some c"
      and "get_param r ''status'' None = Some code" and "code \<noteq> []"
      and "kannel_STATUS_CHOICES code = None"
      and "id_filter e (get_param r ''id'' None) = Inr has_id"
      and "filter (\<lambda>m. on_channel c m \<and> has_id m) (msgs s) \<noteq> []"
  shows "KannelHandler_post e s r =
           (HttpResponse (''Unrecognized status code: '' @ apos # code @ apos
                            # '', ignoring message.'') 401, s)"
  using assms
  by (simp add: KannelHandler_post_def kannel_status_def Let_def truthy_def status_lookup_def
      str_opt_def)

lemma clickatell_unknown_unchanged:
  assumes "lower (kw_action r) = ''status''"
      and "status_lookup clickatell_STATUS_CHOICES (get_param r ''status'' None) = None"
  shows "snd (ClickatellHandler_post e s r) = s"
  using assms
  by (simp add: ClickatellHandler_post_def clickatell_status_def Let_def
      split: option.splits sum.splits)

lemma clickatell_unknown_response:
  assumes "lower (kw_action r) = ''status''"
      and "channel_by_uuid TYPE_CLICKATELL s (kw_uuid r) = Some c"
      and "get_param r ''api_id'' None = None
           \<or> get_param r ''api_id'' None = ch_config c CONFIG_API_ID"
      and "get_param r ''apiMsgId'' None = Some i"
      and "get_param r ''status'' None = Some code"
      and "clickatell_STATUS_CHOICES code = None"
      and "filter (\<lambda>m. on_channel c m \<and> external_id_is (Some i) m) (msgs s) \<noteq> []"
  shows "ClickatellHandler_post e s r =
           (HttpResponse (''Unrecognized status code: '' @ apos # code @ apos
                            # '', ignoring message.'') 401, s)"
  using assms
  by (auto simp add: ClickatellHandler_post_def clickatell_status_def Let_def status_lookup_def
      str_opt_def split: option.splits)

lemma plivo_unknown_unchanged:
  assumes "lower (kw_action r) = ''status''"
      and "status_lookup plivo_STATUS_CHOICES (get_param r ''Status'' None) = None"
  shows "snd (PlivoHandler_post e s r) = s"
  using assms
  by (simp add: PlivoHandler_post_def plivo_status_def Let_def status_lookup_def
      split: option.splits sum.splits)

lemma plivo_unknown_response:
  assumes "lower (kw_action r) = ''status''"
      and "get_param r ''From'' None = Some f" and "get_param r ''To'' None = Some t"
      and "get_param r ''MessageUUID'' None = Some i"
      and "get_param r ''Status'' None = Some code"
      and "plivo_STATUS_CHOICES code = None"
      and "plivo_channel s (kw_uuid r) = Some c"
      and "plivo_address f = Inr (ch_address c)"
      and "filter (\<lambda>m. on_channel c m
                        \<and> external_id_is (Some (case get_param r ''ParentMessageUUID'' None of
                                                   None \<Rightarrow> i | Some parent_id \<Rightarrow> parent_id)) m)
             (msgs s) \<noteq> []"
  shows "PlivoHandler_post e s r =
           (HttpResponse (''Unrecognized status: '' @ apos # code @ apos
                            # '', ignoring message.'') 401, s)"
  using assms
  by (simp add: PlivoHandler_post_def plivo_status_def Let_def)

lemma vumi_unknown_unchanged:
  assumes "lower (kw_action r) = ''event''"
      and "json_body r = Some (JObj body)"
      and "map_of body ''event_type'' \<notin> {Some (JStr ''ack''), Some (JStr ''nack''), Some (JStr ''delivery_report'')}"
  shows "snd (VumiHandler_post e s r) = s"
  using assms
  by (auto simp add: VumiHandler_post_def vumi_event_def Let_def
      split: option.splits sum.splits)

lemma vumi_unknown_response:
  assumes "lower (kw_action r) = ''event''"
      and "json_body r = Some (JObj body)"
      and "vumi_is_ussd body = Inr ussd"
      and "channel_by_uuid (if ussd then TYPE_VUMI_USSD else TYPE_VUMI) s (kw_uuid r) = Some c"
      and "map_of body ''user_message_id'' = Some external_id"
      and "map_of body ''event_type'' = Some status"
      and "status \<notin> {JStr ''ack'', JStr ''nack'', JStr ''delivery_report''}"
      and "filter (\<lambda>m. on_channel c m \<and> external_id_is (jcolumn e external_id) m) (msgs s) \<noteq> []"
  shows "VumiHandler_post e s r =
           (HttpResponse (''Unknown status '' @ apos # jtext e status @ apos # '', ignoring'')
              200, s)"
  using assms
  by (simp add: VumiHandler_post_def vumi_event_def Let_def)

text \<open>
  C5, as amended. A status callback whose code is outside the table of the handler leaves
  the store as it was, in the Kannel, Clickatell, Plivo and Vumi handlers. When the channel
  and the message are found, the response reports the code: with status 401 in the Kannel,
  Clickatell and Plivo handlers, with status 200 in the Vumi handler.
\<close>

theorem unrecognized_status_code:
  "(lower (kw_action r) = ''status''
      \<and> status_lookup kannel_STATUS_CHOICES (get_param r ''status'' None) = None
    \<longrightarrow> snd (KannelHandler_post e s r) = s) \<and>
   (lower (kw_action r) = ''status''
      \<and> channel_by_uuid TYPE_KANNEL s (kw_uuid r) = Some c
      \<and> get_param r ''status'' None = Some code \<and> code \<noteq> []
      \<and> kannel_STATUS_CHOICES code = None
      \<and> id_filter e (get_param r ''id'' None) = Inr has_id
      \<and> filter (\<lambda>m. on_channel c m \<and> has_id m) (msgs s) \<noteq> []
    \<longrightarrow> KannelHandler_post e s r =
          (HttpResponse (''Unrecognized status code: '' @ apos # code @ apos
                           # '', ignoring message.'') 401, s)) \<and>
   (lower (kw_action r) = ''status''
      \<and> status_lookup clickatell_STATUS_CHOICES (get_param r ''status'' None) = None
    \<longrightarrow> snd (ClickatellHandler_post e s r) = s) \<and>
   (lower (kw_action r) = ''status''
      \<and> channel_by_uuid TYPE_CLICKATELL s (kw_uuid r) = Some c
      \<and> (get_param r ''api_id'' None = None
           \<or> get_param r ''api_id'' None = ch_config c CONFIG_API_ID)
      \<and> get_param r ''apiMsgId'' None = Some i
      \<and> get_param r ''status'' None = Some code
      \<and> clickatell_STATUS_CHOICES code = None
      \<and> filter (\<lambda>m. on_channel c m \<and> external_id_is (Some i) m) (msgs s) \<noteq> []
    \<longrightarrow> ClickatellHandler_post e s r =
          (HttpResponse (''Unrecognized status code: '' @ apos # code @ apos
                           # '', ignoring message.'') 401, s)) \<and>
   (lower (kw_action r) = ''status''
      \<and> status_lookup plivo_STATUS_CHOICES (get_param r ''Status'' None) = None
    \<longrightarrow> snd (PlivoHandler_post e s r) = s) \<and>
   (lower (kw_action r) = ''status''
      \<and> get_param r ''From'' None = Some f \<and> get_param r ''To'' None = Some t
      \<and> get_param r ''MessageUUID'' None = Some i
      \<and> get_param r ''Status'' None = Some code
      \<and> plivo_STATUS_CHOICES code = None
      \<and> plivo_channel s (kw_uuid r) = Some c
      \<and> plivo_address f = Inr (ch_address c)
      \<and> filter (\<lambda>m. on_channel c m
                       \<and> external_id_is
                           (Some (case get_param r ''ParentMessageUUID'' None of
                                    None \<Rightarrow> i | Some parent_id \<Rightarrow> parent_id)) m)
           (msgs s) \<noteq> []
    \<longrightarrow> PlivoHandler_post e s r =
          (HttpResponse (''Unrecognized status: '' @ apos # code @ apos
                           # '', ignoring message.'') 401, s)) \<and>
   (lower (kw_action r) = ''event''
      \<and> json_body r = Some (JObj body)
      \<and> map_of body ''event_type''
          \<notin> {Some (JStr ''ack''), Some (JStr ''nack''), Some (JStr ''delivery_report'')}
    \<longrightarrow> snd (VumiHandler_post e s r) = s) \<and>
   (lower (kw_action r) = ''event''
      \<and> json_body r = Some (JObj body)
      \<and> vumi_is_ussd body = Inr ussd
      \<and> channel_by_uuid (if ussd then TYPE_VUMI_USSD else TYPE_VUMI) s (kw_uuid r) = Some c
      \<and> map_of body ''user_message_id'' = Some external_id
      \<and> map_of body ''event_type'' = Some status
      \<and> status \<notin> {JStr ''ack'', JStr ''nack'', JStr ''delivery_report''}
      \<and> filter (\<lambda>m. on_channel c m \<and> external_id_is (jcolumn e external_id) m) (msgs s)
          \<noteq> []
    \<longrightarrow> VumiHandler_post e s r =
          (HttpResponse (''Unknown status '' @ apos # jtext e status @ apos # '', ignoring'')
             200, s))"
proof (intro conjI impI; elim conjE)
  show "snd (KannelHandler_post e s r) = s"
    if "lower (kw_action r) = ''status''"
      "status_lookup kannel_STATUS_CHOICES (get_param r ''status'' None) = None"
    using that by (rule kannel_unknown_unchanged)
qed (rule kannel_unknown_response clickatell_unknown_unchanged clickatell_unknown_response
       plivo_unknown_unchanged plivo_unknown_response vumi_unknown_unchanged
       vumi_unknown_response; assumption)+

theorem unrecognized_status_code_witness:
  "ClickatellHandler_post example_env (example_store TYPE_CLICKATELL WIRED)
     (example_request ''status'' [''apiMsgId'' \<mapsto> ''999'', ''status'' \<mapsto> ''077''] Map.empty)
   = (HttpResponse (''Unrecognized status code: '' @ apos # ''077'' @ apos
                      # '', ignoring message.'') 401,
      example_store TYPE_CLICKATELL WIRED) \<and>
   VumiHandler_post example_env (example_store TYPE_VUMI WIRED)
     ((example_request ''event'' Map.empty Map.empty)
        \<lparr>json_body := Some (JObj [(''user_message_id'', JStr ''999''),
                                  (''event_type'', JStr ''bounce'')])\<rparr>)
   = (HttpResponse (''Unknown status '' @ apos # ''bounce'' @ apos # '', ignoring'') 200,
      example_store TYPE_VUMI WIRED)"
proof -
  have clickatell: "ClickatellHandler_post example_env (example_store TYPE_CLICKATELL WIRED)
     (example_request ''status'' [''apiMsgId'' \<mapsto> ''999'', ''status'' \<mapsto> ''077''] Map.empty)
   = (HttpResponse (''Unrecognized status code: '' @ apos # ''077'' @ apos
                      # '', ignoring message.'') 401,
      example_store TYPE_CLICKATELL WIRED)"
    using unrecognized_status_code
      [where r = "example_request ''status'' [''apiMsgId'' \<mapsto> ''999'', ''status'' \<mapsto> ''077'']
                    Map.empty"
         and e = example_env and s = "example_store TYPE_CLICKATELL WIRED"
         and c = "example_channel TYPE_CLICKATELL" and code = "''077''" and i = "''999''"]
    by (simp add: example_defs python_defs clickatell_STATUS_CHOICES_def)
  have vumi: "VumiHandler_post example_env (example_store TYPE_VUMI WIRED)
     ((example_request ''event'' Map.empty Map.empty)
        \<lparr>json_body := Some (JObj [(''user_message_id'', JStr ''999''),
                                  (''event_type'', JStr ''bounce'')])\<rparr>)
   = (HttpResponse (''Unknown status '' @ apos # ''bounce'' @ apos # '', ignoring'') 200,
      example_store TYPE_VUMI WIRED)"
    using unrecognized_status_code
      [where r = "(example_request ''event'' Map.empty Map.empty)
        \<lparr>json_body := Some (JObj [(''user_message_id'', JStr ''999''),
                                  (''event_type'', JStr ''bounce'')])\<rparr>"
         and e = example_env and s = "example_store TYPE_VUMI WIRED"
         and c = "example_channel TYPE_VUMI" and ussd = False
         and body = "[(''user_message_id'', JStr ''999''), (''event_type'', JStr ''bounce'')]"
         and external_id = "JStr ''999''" and status = "JStr ''bounce''"]
    by (simp add: example_defs python_defs vumi_is_ussd_def contains_def jcolumn_def jtext_def)
  from clickatell vumi show ?thesis by (rule conjI)
qed

text \<open>
  The claim as stated asks for an acknowledgement with status 200: the Kannel handler
  answers the code 077 with status 401.
\<close>

theorem unrecognized_code_not_acknowledged:
  "KannelHandler_post example_env (example_store TYPE_KANNEL WIRED)
     (example_request ''status'' [''id'' \<mapsto> ''7'', ''status'' \<mapsto> ''077''] Map.empty)
   = (HttpResponse (''Unrecognized status code: '' @ apos # ''077'' @ apos
                      # '', ignoring message.'') 401,
      example_store TYPE_KANNEL WIRED)"
  by (simp add: example_defs python_defs KannelHandler_post_def kannel_status_def Let_def
      kannel_STATUS_CHOICES_def)

subsection \<open>Missing fields\<close>














text \<open>
  The Vumi handler rejects only a body that has none of the four fields of a message: a
  body without \<^verbatim>\<open>message_id\<close> has its message created before the KeyError.
\<close>

lemma vumi_missing_message_id:
  "VumiHandler_post example_env (example_store TYPE_VUMI WIRED)
     ((example_request ''receive'' Map.empty Map.empty)
        \<lparr>json_body := Some (JObj [(''timestamp'', JStr ''2015-04-02T14:26:06''),
                                  (''from_addr'', JStr ''+250788383383''),
                                  (''content'', JStr ''hello'')])\<rparr>)
   = (Raised KeyError,
      snd (create_incoming example_env (example_store TYPE_VUMI WIRED)
             (example_channel TYPE_VUMI) ''tel:+250788383383'' ''hello'' (Some 1427984766)
             None PENDING))"
  by (simp add: example_defs python_defs VumiHandler_post_def vumi_receive_def
      vumi_is_ussd_def contains_def jtext_def from_tel_def create_incoming_def Let_def)




subsection \<open>Address matching\<close>

lemma infobip_mismatch:
  assumes "lower (kw_action r) \<noteq> ''delivered''
           \<and> get_param r ''sender'' None = Some sender \<and> get_param r ''text'' None = Some content
           \<and> get_param r ''receiver'' None = Some receiver
           \<and> channel_by_uuid TYPE_INFOBIP s (kw_uuid r) = Some c
           \<and> ch_address c \<noteq> CHR ''+'' # receiver"
  shows "InfobipHandler_get e s r =
           (HttpResponse (''Channel with uuid: '' @ kw_uuid r @ '' not found.'') 404, s)"
  using assms by (simp add: InfobipHandler_get_def Let_def)

lemma infobip_not_found:
  assumes "get_param r ''sender'' None = Some sender \<and> get_param r ''text'' None = Some content
           \<and> get_param r ''receiver'' None = Some receiver
           \<and> channel_by_uuid TYPE_INFOBIP s (kw_uuid r) = None"
  shows "InfobipHandler_get e s r =
           (HttpResponse (''Channel with uuid: '' @ kw_uuid r @ '' not found.'') 404, s)"
  using assms by (simp add: InfobipHandler_get_def Let_def)

lemma infobip_match:
  assumes "lower (kw_action r) \<noteq> ''delivered''
           \<and> get_param r ''sender'' None = Some sender \<and> get_param r ''text'' None = Some content
           \<and> get_param r ''receiver'' None = Some receiver
           \<and> channel_by_uuid TYPE_INFOBIP s (kw_uuid r) = Some c
           \<and> ch_address c = CHR ''+'' # receiver"
  shows "length (msgs (snd (InfobipHandler_get e s r))) = Suc (length (msgs s))"
  using assms by (simp add: InfobipHandler_get_def Let_def create_incoming_def)

lemma blackmyna_mismatch:
  assumes "lower (kw_action r) = ''receive''
           \<and> get_param r ''to'' None = Some to_number
           \<and> get_param r ''from'' None = Some from_number
           \<and> get_param r ''text'' None = Some message
           \<and> channel_by_uuid TYPE_BLACKMYNA s (kw_uuid r) = Some c
           \<and> ch_address c \<noteq> to_number"
  shows "BlackmynaHandler_get e s r =
           (HttpResponse (''Invalid to number ['' @ to_number @ ''], expecting [''
                            @ ch_address c @ '']'') 400, s)"
  using assms by (simp add: BlackmynaHandler_get_def blackmyna_receive_def Let_def)

lemma blackmyna_match:
  assumes "lower (kw_action r) = ''receive''
           \<and> get_param r ''to'' None = Some to_number
           \<and> get_param r ''from'' None = Some from_number
           \<and> get_param r ''text'' None = Some message
           \<and> channel_by_uuid TYPE_BLACKMYNA s (kw_uuid r) = Some c
           \<and> ch_address c = to_number"
  shows "length (msgs (snd (BlackmynaHandler_get e s r))) = Suc (length (msgs s))"
  using assms
  by (simp add: BlackmynaHandler_get_def blackmyna_receive_def Let_def create_incoming_def)

lemma plivo_mismatch:
  assumes "lower (kw_action r) = ''receive''
           \<and> get_param r ''From'' None = Some f \<and> get_param r ''To'' None = Some t
           \<and> get_param r ''MessageUUID'' None = Some i
           \<and> get_param r ''Text'' None = Some content
           \<and> plivo_channel s (kw_uuid r) = Some c
           \<and> plivo_address t = Inr a \<and> ch_address c \<noteq> a"
  shows "PlivoHandler_post e s r =
           (HttpResponse (''Channel not found for number: '' @ t) 400, s)"
  using assms by (simp add: PlivoHandler_post_def plivo_receive_def Let_def)

lemma plivo_match:
  assumes "lower (kw_action r) = ''receive''
           \<and> get_param r ''From'' None = Some f \<and> get_param r ''To'' None = Some t
           \<and> get_param r ''MessageUUID'' None = Some i
           \<and> get_param r ''Text'' None = Some content
           \<and> plivo_channel s (kw_uuid r) = Some c
           \<and> plivo_address t = Inr (ch_address c)"
  shows "length (msgs (snd (PlivoHandler_post e s r))) = Suc (length (msgs s))"
  using assms
  by (simp add: PlivoHandler_post_def plivo_receive_def Let_def create_incoming_def
      set_external_id_def update_msgs_def)

text \<open>
  C7, as amended. The handlers that match addresses compare the destination carried in the
  payload with the address of the channel, each in its own way: the Infobip handler
  compares the address with \<^verbatim>\<open>'+' + receiver\<close>, the plus sign prepended whether or not
  the receiver has one; the Blackmyna handler compares it with \<^verbatim>\<open>to\<close> as sent; the
  Plivo handler compares it with \<^verbatim>\<open>To\<close>, the plus sign prepended when \<^verbatim>\<open>To\<close> does
  not start with one. On a mismatch no message is created and the store is left as it was;
  the response is a 404 with the text of a channel that was not found in the Infobip
  handler, a 400 in the Blackmyna and Plivo handlers. On a match one message is created.
\<close>

theorem address_matching:
  "(lower (kw_action r) \<noteq> ''delivered''
      \<and> get_param r ''sender'' None = Some sender \<and> get_param r ''text'' None = Some content
      \<and> get_param r ''receiver'' None = Some receiver
      \<and> channel_by_uuid TYPE_INFOBIP s (kw_uuid r) = Some c
      \<and> ch_address c \<noteq> CHR ''+'' # receiver
    \<longrightarrow> InfobipHandler_get e s r =
          (HttpResponse (''Channel with uuid: '' @ kw_uuid r @ '' not found.'') 404, s)) \<and>
   (get_param r ''sender'' None = Some sender \<and> get_param r ''text'' None = Some content
      \<and> get_param r ''receiver'' None = Some receiver
      \<and> channel_by_uuid TYPE_INFOBIP s (kw_uuid r) = None
    \<longrightarrow> InfobipHandler_get e s r =
          (HttpResponse (''Channel with uuid: '' @ kw_uuid r @ '' not found.'') 404, s)) \<and>
   (lower (kw_action r) \<noteq> ''delivered''
      \<and> get_param r ''sender'' None = Some sender \<and> get_param r ''text'' None = Some content
      \<and> get_param r ''receiver'' None = Some receiver
      \<and> channel_by_uuid TYPE_INFOBIP s (kw_uuid r) = Some c
      \<and> ch_address c = CHR ''+'' # receiver
    \<longrightarrow> length (msgs (snd (InfobipHandler_get e s r))) = Suc (length (msgs s))) \<and>
   (lower (kw_action r) = ''receive''
      \<and> get_param r ''to'' None = Some to_number
      \<and> get_param r ''from'' None = Some from_number
      \<and> get_param r ''text'' None = Some message
      \<and> channel_by_uuid TYPE_BLACKMYNA s (kw_uuid r) = Some c
      \<and> ch_address c \<noteq> to_number
    \<longrightarrow> BlackmynaHandler_get e s r =
          (HttpResponse (''Invalid to number ['' @ to_number @ ''], expecting [''
                           @ ch_address c @ '']'') 400, s)) \<and>
   (lower (kw_action r) = ''receive''
      \<and> get_param r ''to'' None = Some to_number
      \<and> get_param r ''from'' None = Some from_number
      \<and> get_param r ''text'' None = Some message
      \<and> channel_by_uuid TYPE_BLACKMYNA s (kw_uuid r) = Some c
      \<and> ch_address c = to_number
    \<longrightarrow> length (msgs (snd (BlackmynaHandler_get e s r))) = Suc (length (msgs s))) \<and>
   (lower (kw_action r) = ''receive''
      \<and> get_param r ''From'' None = Some f \<and> get_param r ''To'' None = Some t
      \<and> get_param r ''MessageUUID'' None = Some i
      \<and> get_param r ''Text'' None = Some content
      \<and> plivo_channel s (kw_uuid r) = Some c
      \<and> plivo_address t = Inr a \<and> ch_address c \<noteq> a
    \<longrightarrow> PlivoHandler_post e s r =
          (HttpResponse (''Channel not found for number: '' @ t) 400, s)) \<and>
   (lower (kw_action r) = ''receive''
      \<and> get_param r ''From'' None = Some f \<and> get_param r ''To'' None = Some t
      \<and> get_param r ''MessageUUID'' None = Some i
      \<and> get_param r ''Text'' None = Some content
      \<and> plivo_channel s (kw_uuid r) = Some c
      \<and> plivo_address t = Inr (ch_address c)
    \<longrightarrow> length (msgs (snd (PlivoHandler_post e s r))) = Suc (length (msgs s)))"
  by (intro conjI; rule impI;
      (erule infobip_mismatch | erule infobip_not_found | erule infobip_match
       | erule blackmyna_mismatch | erule blackmyna_match | erule plivo_mismatch
       | erule plivo_match))

theorem address_matching_witness:
  "BlackmynaHandler_get example_env (example_store TYPE_BLACKMYNA WIRED)
     (example_request ''receive''
        [''to'' \<mapsto> ''250788123123'', ''from'' \<mapsto> ''+250788383383'', ''text'' \<mapsto> ''hello'']
        Map.empty)
   = (HttpResponse ''Invalid to number [250788123123], expecting [+250788123123]'' 400,
      example_store TYPE_BLACKMYNA WIRED) \<and>
   length (msgs (snd (PlivoHandler_post example_env (example_store TYPE_PLIVO WIRED)
     (example_request ''receive''
        [''From'' \<mapsto> ''250788383383'', ''To'' \<mapsto> ''250788123123'',
         ''MessageUUID'' \<mapsto> ''m-1'', ''Text'' \<mapsto> ''hello''] Map.empty)))) = 2"
proof -
  have blackmyna: "BlackmynaHandler_get example_env (example_store TYPE_BLACKMYNA WIRED)
     (example_request ''receive''
        [''to'' \<mapsto> ''250788123123'', ''from'' \<mapsto> ''+250788383383'', ''text'' \<mapsto> ''hello'']
        Map.empty)
   = (HttpResponse ''Invalid to number [250788123123], expecting [+250788123123]'' 400,
      example_store TYPE_BLACKMYNA WIRED)"
    using address_matching
      [where r = "example_request ''receive''
                    [''to'' \<mapsto> ''250788123123'', ''from'' \<mapsto> ''+250788383383'',
                     ''text'' \<mapsto> ''hello''] Map.empty"
         and e = example_env and s = "example_store TYPE_BLACKMYNA WIRED"
         and c = "example_channel TYPE_BLACKMYNA" and to_number = "''250788123123''"
         and from_number = "''+250788383383''" and message = "''hello''"]
    by (simp add: example_defs python_defs)
  have plivo: "length (msgs (snd (PlivoHandler_post example_env (example_store TYPE_PLIVO WIRED)
     (example_request ''receive''
        [''From'' \<mapsto> ''250788383383'', ''To'' \<mapsto> ''250788123123'',
         ''MessageUUID'' \<mapsto> ''m-1'', ''Text'' \<mapsto> ''hello''] Map.empty)))) = 2"
    using address_matching
      [where r = "example_request ''receive''
                    [''From'' \<mapsto> ''250788383383'', ''To'' \<mapsto> ''250788123123'',
                     ''MessageUUID'' \<mapsto> ''m-1'', ''Text'' \<mapsto> ''hello''] Map.empty"
         and e = example_env and s = "example_store TYPE_PLIVO WIRED"
         and c = "example_channel TYPE_PLIVO" and f = "''250788383383''"
         and t = "''250788123123''" and i = "''m-1''" and content = "''hello''"]
    by (simp add: example_defs python_defs plivo_channel_def plivo_address_def)
  from blackmyna plivo show ?thesis by (rule conjI)
qed

text \<open>
  The claim as stated has the addresses compared after normalising an optional plus sign,
  and a mismatch answered apart from a channel that is not found. The Infobip handler
  rejects a receiver that is the address of the channel, plus sign included, and answers
  as it answers a request for a channel that does not exist.
\<close>

theorem matching_address_rejected:
  "ch_address (example_channel TYPE_INFOBIP) = ''+250788123123'' \<and>
   InfobipHandler_get example_env (example_store TYPE_INFOBIP WIRED)
     (example_request ''received''
        [''sender'' \<mapsto> ''+250788383383'', ''text'' \<mapsto> ''hello'',
         ''receiver'' \<mapsto> ''+250788123123''] Map.empty)
   = (HttpResponse ''Channel with uuid: c1 not found.'' 404,
      example_store TYPE_INFOBIP WIRED) \<and>
   InfobipHandler_get example_env ((example_store TYPE_INFOBIP WIRED)\<lparr>channels := []\<rparr>)
     (example_request ''received''
        [''sender'' \<mapsto> ''+250788383383'', ''text'' \<mapsto> ''hello'',
         ''receiver'' \<mapsto> ''+250788123123''] Map.empty)
   = (HttpResponse ''Channel with uuid: c1 not found.'' 404,
      (example_store TYPE_INFOBIP WIRED)\<lparr>channels := []\<rparr>)"
  by (simp add: example_defs python_defs InfobipHandler_get_def Let_def)

subsection \<open>Message timestamps\<close>











subsection \<open>The API id of the Clickatell handler\<close>

lemma clickatell_status_not_rejection:
  "fst (clickatell_status e s r c) \<noteq>
     HttpResponse (''Invalid API id for message delivery: '' @ a) 400"
  by (simp add: clickatell_status_def Let_def split: option.splits)

lemma clickatell_receive_not_rejection:
  "fst (clickatell_receive e s r c) \<noteq>
     HttpResponse (''Invalid API id for message delivery: '' @ a) 400"
  by (simp add: clickatell_receive_def Let_def split: option.splits sum.splits prod.splits)

lemma clickatell_actions_not_rejection:
  "fst (if action = ''status'' then clickatell_status e s r c
        else if action = ''receive'' then clickatell_receive e s r c
        else (HttpResponse ''Not handled'' 400, s)) \<noteq>
     HttpResponse (''Invalid API id for message delivery: '' @ a) 400"
  using clickatell_status_not_rejection clickatell_receive_not_rejection by simp

lemma clickatell_rejects:
  assumes "channel_by_uuid TYPE_CLICKATELL s (kw_uuid r) = Some c"
      and "ch_config c CONFIG_API_ID = Some configured"
      and "get_param r ''api_id'' None = Some a" and "a \<noteq> configured"
  shows "ClickatellHandler_post e s r =
           (HttpResponse (''Invalid API id for message delivery: '' @ a) 400, s)"
  using assms by (auto simp add: ClickatellHandler_post_def Let_def)

lemma clickatell_rejects_only:
  assumes "channel_by_uuid TYPE_CLICKATELL s (kw_uuid r) = Some c"
      and "ch_config c CONFIG_API_ID = Some configured"
      and "fst (ClickatellHandler_post e s r) =
             HttpResponse (''Invalid API id for message delivery: '' @ a) 400"
  shows "\<exists>b. get_param r ''api_id'' None = Some b \<and> b \<noteq> configured"
proof (cases "get_param r ''api_id'' None")
  case None
  with assms clickatell_actions_not_rejection [of "lower (kw_action r)" e s r c a]
  show ?thesis
    by (simp add: ClickatellHandler_post_def Let_def)
next
  case (Some b)
  show ?thesis
  proof (cases "b = configured")
    case True
    with Some assms clickatell_actions_not_rejection [of "lower (kw_action r)" e s r c a]
    show ?thesis
      by (simp add: ClickatellHandler_post_def Let_def)
  next
    case False
    with Some show ?thesis by simp
  qed
qed

lemma get_param_other:
  assumes "name \<noteq> k"
  shows "get_param (r\<lparr>GET := (GET r)(k \<mapsto> v)\<rparr>) name d = get_param r name d"
  using assms by (simp add: get_param_def split: option.splits)

lemma clickatell_status_api_id:
  "clickatell_status e s (r\<lparr>GET := (GET r)(''api_id'' \<mapsto> k)\<rparr>) c = clickatell_status e s r c"
  by (simp add: clickatell_status_def get_param_other cong: option.case_cong)

lemma clickatell_receive_api_id:
  "clickatell_receive e s (r\<lparr>GET := (GET r)(''api_id'' \<mapsto> k)\<rparr>) c
     = clickatell_receive e s r c"
  by (simp add: clickatell_receive_def get_param_other Let_def
      cong: option.case_cong sum.case_cong)

lemma clickatell_skips:
  assumes "channel_by_uuid TYPE_CLICKATELL s (kw_uuid r) = Some c"
      and "ch_config c CONFIG_API_ID = Some configured"
      and "get_param r ''api_id'' None = None"
  shows "ClickatellHandler_post e s r
           = ClickatellHandler_post e s (r\<lparr>GET := (GET r)(''api_id'' \<mapsto> configured)\<rparr>)"
proof -
  have "get_param (r\<lparr>GET := (GET r)(''api_id'' \<mapsto> configured)\<rparr>) ''api_id'' None
          = Some configured"
    by (simp add: get_param_def)
  with assms show ?thesis
    by (simp add: ClickatellHandler_post_def Let_def clickatell_status_api_id
        clickatell_receive_api_id)
qed

text \<open>
  C9. In the Clickatell handler, for a request whose channel is found and has a configured
  API id: the handler rejects the request as one with an invalid API id exactly when the
  request carries an \<^verbatim>\<open>api_id\<close> that differs from the configured one, and a rejection
  leaves the store as it was; a request without \<^verbatim>\<open>api_id\<close> is handled as the same
  request carrying the configured API id is.
\<close>

theorem clickatell_api_id_check:
  "channel_by_uuid TYPE_CLICKATELL s (kw_uuid r) = Some c
     \<and> ch_config c CONFIG_API_ID = Some configured
   \<longrightarrow> ((\<exists>a. fst (ClickatellHandler_post e s r) =
                  HttpResponse (''Invalid API id for message delivery: '' @ a) 400)
          = (\<exists>a. get_param r ''api_id'' None = Some a \<and> a \<noteq> configured))
       \<and> (\<forall>a. get_param r ''api_id'' None = Some a \<and> a \<noteq> configured
              \<longrightarrow> ClickatellHandler_post e s r =
                    (HttpResponse (''Invalid API id for message delivery: '' @ a) 400, s))
       \<and> (get_param r ''api_id'' None = None
          \<longrightarrow> ClickatellHandler_post e s r
                = ClickatellHandler_post e s (r\<lparr>GET := (GET r)(''api_id'' \<mapsto> configured)\<rparr>))"
proof (intro impI, elim conjE, intro conjI allI impI)
  assume c: "channel_by_uuid TYPE_CLICKATELL s (kw_uuid r) = Some c"
    and k: "ch_config c CONFIG_API_ID = Some configured"
  show "(\<exists>a. fst (ClickatellHandler_post e s r) =
              HttpResponse (''Invalid API id for message delivery: '' @ a) 400)
        = (\<exists>a. get_param r ''api_id'' None = Some a \<and> a \<noteq> configured)"
  proof
    assume "\<exists>a. fst (ClickatellHandler_post e s r) =
                HttpResponse (''Invalid API id for message delivery: '' @ a) 400"
    then show "\<exists>a. get_param r ''api_id'' None = Some a \<and> a \<noteq> configured"
      using clickatell_rejects_only [OF c k] by blast
  next
    assume "\<exists>a. get_param r ''api_id'' None = Some a \<and> a \<noteq> configured"
    then obtain a where "get_param r ''api_id'' None = Some a" "a \<noteq> configured"
      by blast
    then have "ClickatellHandler_post e s r =
        (HttpResponse (''Invalid API id for message delivery: '' @ a) 400, s)"
      by (rule clickatell_rejects [OF c k])
    then show "\<exists>a. fst (ClickatellHandler_post e s r) =
                 HttpResponse (''Invalid API id for message delivery: '' @ a) 400"
      by auto
  qed
  show "ClickatellHandler_post e s r =
          (HttpResponse (''Invalid API id for message delivery: '' @ a) 400, s)"
    if "get_param r ''api_id'' None = Some a \<and> a \<noteq> configured" for a
    using that clickatell_rejects [OF c k] by blast
  show "ClickatellHandler_post e s r
          = ClickatellHandler_post e s (r\<lparr>GET := (GET r)(''api_id'' \<mapsto> configured)\<rparr>)"
    if "get_param r ''api_id'' None = None"
    using that by (rule clickatell_skips [OF c k])
qed

theorem clickatell_api_id_check_witness:
  "ClickatellHandler_post example_env (example_store TYPE_CLICKATELL WIRED)
     (example_request ''status''
        [''api_id'' \<mapsto> ''54321'', ''apiMsgId'' \<mapsto> ''999'', ''status'' \<mapsto> ''004''] Map.empty)
   = (HttpResponse ''Invalid API id for message delivery: 54321'' 400,
      example_store TYPE_CLICKATELL WIRED) \<and>
   ClickatellHandler_post example_env (example_store TYPE_CLICKATELL WIRED)
     (example_request ''status'' [''apiMsgId'' \<mapsto> ''999'', ''status'' \<mapsto> ''004''] Map.empty)
   = ClickatellHandler_post example_env (example_store TYPE_CLICKATELL WIRED)
       (example_request ''status''
          [''apiMsgId'' \<mapsto> ''999'', ''status'' \<mapsto> ''004'', ''api_id'' \<mapsto> ''12345'']
          Map.empty)"
proof -
  have rejected: "ClickatellHandler_post example_env (example_store TYPE_CLICKATELL WIRED)
     (example_request ''status''
        [''api_id'' \<mapsto> ''54321'', ''apiMsgId'' \<mapsto> ''999'', ''status'' \<mapsto> ''004''] Map.empty)
   = (HttpResponse ''Invalid API id for message delivery: 54321'' 400,
      example_store TYPE_CLICKATELL WIRED)"
    using clickatell_api_id_check
      [where r = "example_request ''status''
                    [''api_id'' \<mapsto> ''54321'', ''apiMsgId'' \<mapsto> ''999'', ''status'' \<mapsto> ''004'']
                    Map.empty"
         and e = example_env and s = "example_store TYPE_CLICKATELL WIRED"
         and c = "example_channel TYPE_CLICKATELL" and configured = "''12345''"]
    by (simp add: example_defs python_defs)
  have skipped: "ClickatellHandler_post example_env (example_store TYPE_CLICKATELL WIRED)
     (example_request ''status'' [''apiMsgId'' \<mapsto> ''999'', ''status'' \<mapsto> ''004''] Map.empty)
   = ClickatellHandler_post example_env (example_store TYPE_CLICKATELL WIRED)
       (example_request ''status''
          [''apiMsgId'' \<mapsto> ''999'', ''status'' \<mapsto> ''004'', ''api_id'' \<mapsto> ''12345'']
          Map.empty)"
    using clickatell_api_id_check
      [where r = "example_request ''status'' [''apiMsgId'' \<mapsto> ''999'', ''status'' \<mapsto> ''004'']
                    Map.empty"
         and e = example_env and s = "example_store TYPE_CLICKATELL WIRED"
         and c = "example_channel TYPE_CLICKATELL" and configured = "''12345''"]
    by (simp add: example_defs python_defs)
  from rejected skipped show ?thesis by (rule conjI)
qed

subsection \<open>The authentication gate\<close>

lemma first_filter_mem:
  assumes "first (filter P xs) = Some x"
  shows "x \<in> set xs \<and> P x"
proof -
  from assms obtain ys where "filter P xs = x # ys"
    by (auto simp add: first_def split: list.splits)
  then have "x \<in> set (filter P xs)"
    by simp
  then show ?thesis
    by simp
qed
















subsection \<open>The transition to SENT\<close>

lemma update_msgs_guarded:
  assumes "\<And>m. sel m \<Longrightarrow> guard m"
  shows "list_all2 (\<lambda>m m'. \<not> guard m \<longrightarrow> m' = m) (msgs s) (msgs (update_msgs sel f s))"
  using assms by (auto simp add: update_msgs_def list_all2_map2 list_all2_same)

lemma kannel_sent_guarded:
  assumes "lower (kw_action r) = ''status''"
      and "status_lookup kannel_STATUS_CHOICES (get_param r ''status'' None) = Some SENT"
  shows "list_all2 (\<lambda>m m'. \<not> not_yet_sent m \<longrightarrow> m' = m) (msgs s)
           (msgs (snd (KannelHandler_post e s r)))"
proof -
  have "list_all2 (\<lambda>m m'. \<not> not_yet_sent m \<longrightarrow> m' = m) (msgs s)
          (msgs (snd (kannel_status e s r c)))" for c
    using assms(2)
    by (auto simp add: kannel_status_def Let_def list_all2_same intro!: update_msgs_guarded
        split: option.splits sum.splits)
  with assms(1) show ?thesis
    by (simp add: KannelHandler_post_def Let_def list_all2_same split: option.splits)
qed

text \<open>
  The callback of \<^verbatim>\<open>TwimlAPIHandler.post\<close> hands the message to
  \<^verbatim>\<open>status_sent\<close> without looking at its status.
\<close>

lemma twiml_callback_unguarded:
  assumes "id_filter e (GET r ''id'') = Inr has_id"
      and "first (filter has_id (msgs s)) = Some sms"
      and "msg_org sms = Some org" and "connected_to_twilio org"
      and "msg_channel sms = Some c" and "get_client_auth c = Some token"
      and "validate e token (twiml_url e r) (POST r) (signature r)"
      and "POST r ''SmsStatus'' = Some ''sent''"
  shows "twiml_callback self e s r =
           (HttpResponse [] 200, update_msgs (\<lambda>x. msg_id x = msg_id sms) status_sent s)"
  using assms by (simp add: twiml_callback_def Let_def)

text \<open>
  C2. The claim has a callback that maps to SENT leave a message that is already SENT or
  DELIVERED untouched. The Kannel handler does so, by its \<^verbatim>\<open>status__in\<close> filter
  (\<open>kannel_sent_guarded\<close>). \<^verbatim>\<open>TwimlAPIHandler.post\<close> has no such filter
  (\<open>twiml_callback_unguarded\<close>): a callback
  with \<^verbatim>\<open>SmsStatus=sent\<close> and a valid signature, for message 7 which is DELIVERED,
  leaves it SENT.
\<close>

theorem twiml_sent_reverts_delivered:
  "map msg_status (msgs (example_store TYPE_TWIML DELIVERED)) = [DELIVERED] \<and>
   TwimlAPIHandler_post TwimlAPIHandler example_env (example_store TYPE_TWIML DELIVERED)
     ((example_request '''' [''action'' \<mapsto> ''callback'', ''id'' \<mapsto> ''7'']
         [''To'' \<mapsto> ''+250788383383'', ''SmsStatus'' \<mapsto> ''sent''])
        \<lparr>META := [''HTTP_X_TWILIO_SIGNATURE'' \<mapsto> ''signed:secret'']\<rparr>)
   = (HttpResponse [] 200, example_store TYPE_TWIML SENT)"
  by (simp add: example_defs python_defs TwimlAPIHandler_post_def twiml_messages_def
      twiml_callback_def get_client_auth_def signature_def update_msgs_def status_sent_def
      Let_def)

subsection \<open>Repeated delivery reports\<close>

lemma update_msgs_channels: "channels (update_msgs sel f s) = channels s"
  by (simp add: update_msgs_def)

lemma filter_update_msgs:
  assumes "\<And>m. P (f m) = P m"
  shows "filter P (msgs (update_msgs sel f s))
           = map (\<lambda>m. if sel m then f m else m) (filter P (msgs s))"
  using assms by (simp add: update_msgs_def filter_map comp_def cong: if_cong)

lemma update_msgs_twice:
  assumes "\<And>m. sel (f m) = sel m" and "\<And>m. f (f m) = f m"
  shows "update_msgs sel f (update_msgs sel f s) = update_msgs sel f s"
  using assms by (simp add: update_msgs_def comp_def)

lemma id_filter_status:
  assumes "id_filter e x = Inr has_id"
  shows "has_id (status_delivered m) = has_id m"
  using assms
  by (auto simp add: id_filter_def status_delivered_def split: option.splits)

lemma kannel_delivered_twice:
  assumes "lower (kw_action r) = ''status''
           \<and> status_lookup kannel_STATUS_CHOICES (get_param r ''status'' None) = Some DELIVERED"
  shows "KannelHandler_post e (snd (KannelHandler_post e s r)) r = KannelHandler_post e s r"
proof -
  have status: "kannel_status e (snd (kannel_status e s r c)) r c = kannel_status e s r c"
    for c
  proof (cases "id_filter e (get_param r ''id'' None)")
    case (Inl err)
    then show ?thesis
      by (simp add: kannel_status_def Let_def)
  next
    case (Inr has_id)
    define sms where "sms = (\<lambda>m. on_channel c m \<and> has_id m)"
    have sms: "sms (status_delivered m) = sms m" for m
      using id_filter_status [OF Inr, of m]
      by (simp add: sms_def on_channel_def status_delivered_def)
    have idem: "status_delivered (status_delivered m) = status_delivered m" for m
      by (simp add: status_delivered_def)
    have found: "filter sms (msgs (update_msgs sms status_delivered s)) = []
                 \<longleftrightarrow> filter sms (msgs s) = []"
      by (simp add: filter_update_msgs [of sms, OF sms])
    from assms Inr found update_msgs_twice [of sms status_delivered s, OF sms idem]
    show ?thesis
      by (simp add: kannel_status_def Let_def sms_def [symmetric])
  qed
  show ?thesis
  proof (cases "channel_by_uuid TYPE_KANNEL s (kw_uuid r)")
    case None
    then show ?thesis
      by (simp add: KannelHandler_post_def Let_def)
  next
    case (Some c)
    have "channels (snd (kannel_status e s r c)) = channels s"
      by (simp add: kannel_status_def Let_def update_msgs_channels
          split: option.splits sum.splits)
    then have "channel_by_uuid TYPE_KANNEL (snd (kannel_status e s r c)) (kw_uuid r) = Some c"
      using Some by (simp add: channel_by_uuid_def)
    with Some assms status [of c] show ?thesis
      by (simp add: KannelHandler_post_def Let_def)
  qed
qed


lemma first_map: "first (map g xs) = map_option g (first xs)"
  by (cases xs) (simp_all add: first_def)

lemma viber_status_twice:
  "viber_status e (snd (viber_status e s body c)) body c = viber_status e s body c"
proof (cases "subscript body ''message_token''")
  case (Inl err)
  then show ?thesis
    by (simp add: viber_status_def)
next
  case (Inr external_id)
  define P where "P = (\<lambda>m::msg. on_channel c m \<and> msg_direction m = OUTGOING
                            \<and> external_id_is (jcolumn e external_id) m)"
  have P: "P (status_delivered m) = P m" for m
    by (simp add: P_def on_channel_def external_id_is_def status_delivered_def)
  show ?thesis
  proof (cases "first (filter P (msgs s))")
    case None
    with Inr show ?thesis
      by (simp add: viber_status_def P_def [symmetric])
  next
    case (Some m)
    define sel where "sel = (\<lambda>x::msg. msg_id x = msg_id m)"
    have sel: "sel (status_delivered x) = sel x" for x
      by (simp add: sel_def status_delivered_def)
    have idem: "status_delivered (status_delivered x) = status_delivered x" for x
      by (simp add: status_delivered_def)
    have first: "viber_status e s body c =
        (HttpResponse (''Msg '' @ str_nat (msg_id m) @ '' updated'') 200,
         update_msgs sel status_delivered s)"
      using Inr Some by (simp add: viber_status_def P_def [symmetric] sel_def)
    have "first (filter P (msgs (update_msgs sel status_delivered s)))
            = Some (status_delivered m)"
      using Some by (simp add: filter_update_msgs [of P, OF P] first_map sel_def)
    moreover have "msg_id (status_delivered m) = msg_id m"
      by (simp add: status_delivered_def)
    ultimately have "viber_status e (update_msgs sel status_delivered s) body c =
        (HttpResponse (''Msg '' @ str_nat (msg_id m) @ '' updated'') 200,
         update_msgs sel status_delivered (update_msgs sel status_delivered s))"
      using Inr by (simp add: viber_status_def P_def [symmetric] sel_def)
    with first update_msgs_twice [of sel status_delivered s, OF sel idem] show ?thesis
      by simp
  qed
qed

lemma viber_delivered_twice:
  assumes "lower (kw_action r) = ''status''"
  shows "ViberHandler_post e (snd (ViberHandler_post e s r)) r = ViberHandler_post e s r"
proof (cases "channel_by_uuid TYPE_VIBER s (kw_uuid r)")
  case None
  then show ?thesis
    by (simp add: ViberHandler_post_def Let_def)
next
  case (Some c)
  show ?thesis
  proof (cases "json_body r")
    case None
    with Some show ?thesis
      by (simp add: ViberHandler_post_def Let_def)
  next
    case body: (Some body)
    have "channels (snd (viber_status e s body c)) = channels s"
      by (simp add: viber_status_def update_msgs_channels split: option.splits sum.splits)
    then have "channel_by_uuid TYPE_VIBER (snd (viber_status e s body c)) (kw_uuid r) = Some c"
      using Some by (simp add: channel_by_uuid_def)
    with Some body assms viber_status_twice [of e s body c] show ?thesis
      by (simp add: ViberHandler_post_def Let_def)
  qed
qed

text \<open>
  C3. Applying a DELIVERED status callback of the Kannel handler, or a status callback of
  the Viber handler (every one of which marks the message delivered), to the store that the
  same callback has left gives the same response and the same store again: the second
  application changes no status, is no error where the first was none, and adds nothing to
  the record of effects.
\<close>

theorem delivered_callback_idempotent:
  "(lower (kw_action r) = ''status''
      \<and> status_lookup kannel_STATUS_CHOICES (get_param r ''status'' None) = Some DELIVERED
    \<longrightarrow> KannelHandler_post e (snd (KannelHandler_post e s r)) r = KannelHandler_post e s r) \<and>
   (lower (kw_action r) = ''status''
    \<longrightarrow> ViberHandler_post e (snd (ViberHandler_post e s r)) r = ViberHandler_post e s r)"
  by (intro conjI; rule impI; (erule kannel_delivered_twice | erule viber_delivered_twice))

theorem delivered_callback_idempotent_witness:
  "KannelHandler_post example_env (example_store TYPE_KANNEL WIRED)
     (example_request ''status'' [''id'' \<mapsto> ''7'', ''status'' \<mapsto> ''1''] Map.empty)
   = (HttpResponse ''SMS Status Updated'' 200, example_store TYPE_KANNEL DELIVERED) \<and>
   KannelHandler_post example_env (example_store TYPE_KANNEL DELIVERED)
     (example_request ''status'' [''id'' \<mapsto> ''7'', ''status'' \<mapsto> ''1''] Map.empty)
   = (HttpResponse ''SMS Status Updated'' 200, example_store TYPE_KANNEL DELIVERED) \<and>
   ViberHandler_post example_env (example_store TYPE_VIBER DELIVERED)
     ((example_request ''status'' Map.empty Map.empty)
        \<lparr>json_body := Some (JObj [(''message_token'', JNum 999)])\<rparr>)
   = (HttpResponse ''Msg 7 updated'' 200, example_store TYPE_VIBER DELIVERED)"
proof -
  have once: "KannelHandler_post example_env (example_store TYPE_KANNEL WIRED)
     (example_request ''status'' [''id'' \<mapsto> ''7'', ''status'' \<mapsto> ''1''] Map.empty)
   = (HttpResponse ''SMS Status Updated'' 200, example_store TYPE_KANNEL DELIVERED)"
    by (simp add: example_defs python_defs KannelHandler_post_def kannel_status_def Let_def
        kannel_STATUS_CHOICES_def update_msgs_def status_delivered_def)
  have twice: "KannelHandler_post example_env (example_store TYPE_KANNEL DELIVERED)
     (example_request ''status'' [''id'' \<mapsto> ''7'', ''status'' \<mapsto> ''1''] Map.empty)
   = (HttpResponse ''SMS Status Updated'' 200, example_store TYPE_KANNEL DELIVERED)"
    using delivered_callback_idempotent
      [where r = "example_request ''status'' [''id'' \<mapsto> ''7'', ''status'' \<mapsto> ''1''] Map.empty"
         and e = example_env and s = "example_store TYPE_KANNEL WIRED"]
    by (simp add: once)
       (simp add: example_request_def python_defs kannel_STATUS_CHOICES_def)
  have wired: "ViberHandler_post example_env (example_store TYPE_VIBER WIRED)
     ((example_request ''status'' Map.empty Map.empty)
        \<lparr>json_body := Some (JObj [(''message_token'', JNum 999)])\<rparr>)
   = (HttpResponse ''Msg 7 updated'' 200, example_store TYPE_VIBER DELIVERED)"
    by (simp add: example_defs python_defs ViberHandler_post_def viber_status_def Let_def
        subscript_def jcolumn_def jtext_def update_msgs_def status_delivered_def
        str_nat.simps)
  have viber: "ViberHandler_post example_env (example_store TYPE_VIBER DELIVERED)
     ((example_request ''status'' Map.empty Map.empty)
        \<lparr>json_body := Some (JObj [(''message_token'', JNum 999)])\<rparr>)
   = (HttpResponse ''Msg 7 updated'' 200, example_store TYPE_VIBER DELIVERED)"
    using delivered_callback_idempotent
      [where r = "(example_request ''status'' Map.empty Map.empty)
                    \<lparr>json_body := Some (JObj [(''message_token'', JNum 999)])\<rparr>"
         and e = example_env and s = "example_store TYPE_VIBER WIRED"]
    by (simp add: wired) (simp add: example_request_def python_defs)
  from once twice viber show ?thesis by (intro conjI)
qed

subsection \<open>Channel resolution\<close>

lemma channel_by_uuid_valid:
  assumes "channel_by_uuid t s u = Some c"
  shows "ch_is_active c \<and> ch_org c \<noteq> None \<and> ch_type c = t \<and> ch_uuid c = u"
  using first_filter_mem [OF assms [unfolded channel_by_uuid_def]] by simp

text \<open>
  \<^verbatim>\<open>TwilioHandler.get_receive_channel\<close> looks the channel up by address alone: it
  resolves a channel of another type at that address.
\<close>

lemma twilio_resolves_other_type:
  "get_receive_channel TwilioHandler (example_store TYPE_KANNEL WIRED) [] ''+250788123123''
     = Some (example_channel TYPE_KANNEL)"
  by (simp add: example_defs first_def)

text \<open>
  C4. The claim has every handler resolve only channels that are active, belong to an
  organization and have the type of the handler. The lookup that the handlers share does so
  (\<open>channel_by_uuid_valid\<close>). The lookup of \<^verbatim>\<open>PlivoHandler.post\<close> has no
  \<^verbatim>\<open>exclude(org=None)\<close>: it resolves an active Plivo channel without an organization,
  and a status callback through it marks the message of that channel delivered.
\<close>

theorem plivo_resolves_orgless_channel:
  "ch_org ((example_channel TYPE_PLIVO)\<lparr>ch_org := None\<rparr>) = None \<and>
   plivo_channel
     \<lparr>channels = [(example_channel TYPE_PLIVO)\<lparr>ch_org := None\<rparr>],
      msgs = [example_msg ((example_channel TYPE_PLIVO)\<lparr>ch_org := None\<rparr>) WIRED],
      msg_seq = 8, effects = []\<rparr> ''c1''
   = Some ((example_channel TYPE_PLIVO)\<lparr>ch_org := None\<rparr>) \<and>
   PlivoHandler_post example_env
     \<lparr>channels = [(example_channel TYPE_PLIVO)\<lparr>ch_org := None\<rparr>],
      msgs = [example_msg ((example_channel TYPE_PLIVO)\<lparr>ch_org := None\<rparr>) WIRED],
      msg_seq = 8, effects = []\<rparr>
     (example_request ''status''
        [''From'' \<mapsto> ''250788123123'', ''To'' \<mapsto> ''250788383383'',
         ''MessageUUID'' \<mapsto> ''999'', ''Status'' \<mapsto> ''delivered''] Map.empty)
   = (HttpResponse ''Status Updated'' 200,
      \<lparr>channels = [(example_channel TYPE_PLIVO)\<lparr>ch_org := None\<rparr>],
       msgs = [example_msg ((example_channel TYPE_PLIVO)\<lparr>ch_org := None\<rparr>) DELIVERED],
       msg_seq = 8, effects = []\<rparr>)"
  by (simp add: example_defs python_defs PlivoHandler_post_def plivo_status_def
      plivo_channel_def plivo_address_def plivo_STATUS_CHOICES_def update_msgs_def
      status_delivered_def update_broadcast_def Let_def)

end
